theory Spec2Isabelle
  imports Complex_Main "HOL-Library.Word" "HOL-Library.AList" "HOL-Library.List_Lexorder"
begin

section \<open>JavaScript values\<close>

text \<open>
  A JavaScript string is a sequence of 16-bit code units, and \<open>.length\<close> counts
  code units. \<open>lit\<close> embeds a literal of the source text (all of them are ASCII).
\<close>

type_synonym jsstring = "16 word list"

definition lit :: "string \<Rightarrow> jsstring" where
  "lit s = map (\<lambda>c. of_nat (of_char c)) s"

text \<open>
  A JavaScript number is an IEEE binary64 value: NaN, an infinity or a finite value.
  Every finite binary64 value is a real number, so \<open>Fin\<close> covers them all (both zeros
  are \<open>Fin 0\<close>; the program never distinguishes them).
\<close>

datatype jsnum = NaN | PosInfinity | NegInfinity | Fin real

text \<open>The operator \<open><\<close> on numbers: false whenever an operand is NaN.\<close>

fun num_less :: "jsnum \<Rightarrow> jsnum \<Rightarrow> bool" where
  "num_less NaN _ = False"
| "num_less _ NaN = False"
| "num_less (Fin x) (Fin y) = (x < y)"
| "num_less PosInfinity _ = False"
| "num_less _ PosInfinity = True"
| "num_less _ NegInfinity = False"
| "num_less NegInfinity (Fin y) = True"

definition isNaN :: "jsnum \<Rightarrow> bool" where
  "isNaN x = (x = NaN)"

text \<open>
  The values the program handles: what \<open>JSON.parse\<close> produces, and \<open>undefined\<close>,
  which is what reading an absent property gives. An object is the list of its
  properties in insertion order.
\<close>

datatype jsval =
    JUndefined
  | JNull
  | JBool bool
  | JNum jsnum
  | JStr jsstring
  | JArr "jsval list"
  | JObj "(jsstring \<times> jsval) list"

fun typeof :: "jsval \<Rightarrow> string" where
  "typeof JUndefined = ''undefined''"
| "typeof JNull = ''object''"
| "typeof (JBool _) = ''boolean''"
| "typeof (JNum _) = ''number''"
| "typeof (JStr _) = ''string''"
| "typeof (JArr _) = ''object''"
| "typeof (JObj _) = ''object''"

text \<open>Truthiness, as \<open>!x\<close>, \<open>x || y\<close> and \<open>x ? a : b\<close> test it.\<close>

fun truthy :: "jsval \<Rightarrow> bool" where
  "truthy JUndefined = False"
| "truthy JNull = False"
| "truthy (JBool b) = b"
| "truthy (JNum n) = (n \<noteq> NaN \<and> n \<noteq> Fin 0)"
| "truthy (JStr s) = (s \<noteq> [])"
| "truthy (JArr _) = True"
| "truthy (JObj _) = True"

text \<open>
  Reading a property \<open>x.k\<close>. On an object it is the stored value or \<open>undefined\<close>.
  The property names the program reads (\<open>text\<close>, \<open>createdAt\<close>, \<open>locations\<close>,
  \<open>$type\<close>, \<open>latitude\<close>, ...) are not properties of arrays, strings, numbers or
  booleans, so there the read gives \<open>undefined\<close> as well. On \<open>null\<close> and
  \<open>undefined\<close> a property read throws; the callers below test for that case
  before they read.
\<close>

fun get_prop :: "jsval \<Rightarrow> jsstring \<Rightarrow> jsval" where
  "get_prop (JObj kvs) k = (case map_of kvs k of None \<Rightarrow> JUndefined | Some v \<Rightarrow> v)"
| "get_prop _ k = JUndefined"

text \<open>Assigning a property \<open>x.k = v\<close>: replaces the value in place or appends the property.\<close>

fun set_prop :: "jsval \<Rightarrow> jsstring \<Rightarrow> jsval \<Rightarrow> jsval" where
  "set_prop (JObj kvs) k v = JObj (AList.update k v kvs)"
| "set_prop x k v = x"

text \<open>The content of a string value; only applied where \<open>typeof\<close> is \<open>string\<close>.\<close>

fun str_value :: "jsval \<Rightarrow> jsstring" where
  "str_value (JStr s) = s"
| "str_value _ = []"

fun isArray :: "jsval \<Rightarrow> bool" where
  "isArray (JArr _) = True"
| "isArray _ = False"

fun elements :: "jsval \<Rightarrow> jsval list" where
  "elements (JArr xs) = xs"
| "elements _ = []"

text \<open>
  The built-in functions of the JavaScript runtime that the program calls. They are not
  part of the repository, so the program is modelled over any runtime:
  \<open>Date_parse\<close> is \<open>Date.parse\<close> (its result on non-ISO strings is left to the engine),
  \<open>parseFloat\<close> is the global \<open>parseFloat\<close>, and \<open>JSON_parse\<close> is \<open>JSON.parse\<close>,
  \<open>None\<close> when it throws a SyntaxError.
\<close>

record runtime =
  Date_parse :: "jsstring \<Rightarrow> jsnum"
  parseFloat :: "jsstring \<Rightarrow> jsnum"
  JSON_parse :: "jsstring \<Rightarrow> jsval option"

section \<open>The validator (shared/types.ts)\<close>

text \<open>
  A thrown \<open>Error(msg)\<close> is \<open>Error msg\<close>. \<open>UnsupportedLocationType v\<close> is the
  error whose message is \<open>Unsupported location type: \<close> followed by the offending
  tag \<open>v\<close> converted to a string. \<open>TypeError\<close> is the engine's error for reading a
  property of \<open>null\<close> or \<open>undefined\<close>.
\<close>

datatype error =
    Error string
  | UnsupportedLocationType jsval
  | TypeError

definition validateGeoLocation :: "runtime \<Rightarrow> jsval \<Rightarrow> error + jsval" where
  "validateGeoLocation rt location =
    (if \<not> truthy (get_prop location (lit ''latitude''))
        \<or> typeof (get_prop location (lit ''latitude'')) \<noteq> ''string''
     then Inl (Error ''geo location must have latitude as string'')
     else if \<not> truthy (get_prop location (lit ''longitude''))
        \<or> typeof (get_prop location (lit ''longitude'')) \<noteq> ''string''
     then Inl (Error ''geo location must have longitude as string'')
     else
       let lat = parseFloat rt (str_value (get_prop location (lit ''latitude'')));
           lng = parseFloat rt (str_value (get_prop location (lit ''longitude'')))
       in if isNaN lat \<or> num_less lat (Fin (- 90)) \<or> num_less (Fin 90) lat
          then Inl (Error ''latitude must be a valid number between -90 and 90'')
          else if isNaN lng \<or> num_less lng (Fin (- 180)) \<or> num_less (Fin 180) lng
          then Inl (Error ''longitude must be a valid number between -180 and 180'')
          else Inr (JObj
            [(lit ''$type'', JStr (lit ''community.lexicon.location.geo'')),
             (lit ''latitude'', get_prop location (lit ''latitude'')),
             (lit ''longitude'', get_prop location (lit ''longitude''))]))"

text \<open>
  One block of \<open>validateAddressLocation\<close>: the source repeats it for each of the six
  optional fields, with the field's name in the property reads and in the message.
\<close>

definition address_field :: "jsval \<Rightarrow> string \<Rightarrow> jsval \<Rightarrow> error + jsval" where
  "address_field location f validatedAddress =
    (if get_prop location (lit f) \<noteq> JUndefined
     then if typeof (get_prop location (lit f)) \<noteq> ''string''
          then Inl (Error (f @ '' must be a string''))
          else Inr (set_prop validatedAddress (lit f) (get_prop location (lit f)))
     else Inr validatedAddress)"

fun address_fields :: "jsval \<Rightarrow> string list \<Rightarrow> jsval \<Rightarrow> error + jsval" where
  "address_fields location [] validatedAddress = Inr validatedAddress"
| "address_fields location (f # fs) validatedAddress =
    (case address_field location f validatedAddress of
       Inl e \<Rightarrow> Inl e
     | Inr v \<Rightarrow> address_fields location fs v)"

definition validateAddressLocation :: "jsval \<Rightarrow> error + jsval" where
  "validateAddressLocation location =
    address_fields location
      [''street'', ''locality'', ''region'', ''country'', ''postalCode'', ''name'']
      (JObj [(lit ''$type'', JStr (lit ''community.lexicon.location.address''))])"

text \<open>
  The body of the loop \<open>for (const location of record.locations)\<close>, for one element;
  the validated element is what the loop pushes.
\<close>

definition validate_location :: "runtime \<Rightarrow> jsval \<Rightarrow> error + jsval" where
  "validate_location rt location =
    (if location = JNull \<or> location = JUndefined then Inl TypeError
     else if \<not> truthy (get_prop location (lit ''$type''))
     then Inl (Error ''Each location must have a $type field'')
     else if get_prop location (lit ''$type'') = JStr (lit ''community.lexicon.location.geo'')
     then validateGeoLocation rt location
     else if get_prop location (lit ''$type'') = JStr (lit ''community.lexicon.location.address'')
     then validateAddressLocation location
     else Inl (UnsupportedLocationType (get_prop location (lit ''$type''))))"

fun validate_locations_loop :: "runtime \<Rightarrow> jsval list \<Rightarrow> jsval list \<Rightarrow> error + jsval list" where
  "validate_locations_loop rt [] validatedLocations = Inr validatedLocations"
| "validate_locations_loop rt (location # rest) validatedLocations =
    (case validate_location rt location of
       Inl e \<Rightarrow> Inl e
     | Inr v \<Rightarrow> validate_locations_loop rt rest (validatedLocations @ [v]))"

text \<open>The block \<open>if (record.locations !== undefined) { ... }\<close>.\<close>

definition validate_locations :: "runtime \<Rightarrow> jsval \<Rightarrow> jsval \<Rightarrow> error + jsval" where
  "validate_locations rt record validatedRecord =
    (if get_prop record (lit ''locations'') \<noteq> JUndefined
     then if \<not> isArray (get_prop record (lit ''locations''))
          then Inl (Error ''locations must be an array'')
          else (case validate_locations_loop rt (elements (get_prop record (lit ''locations''))) [] of
                  Inl e \<Rightarrow> Inl e
                | Inr validatedLocations \<Rightarrow>
                    if length validatedLocations > 0
                    then Inr (set_prop validatedRecord (lit ''locations'') (JArr validatedLocations))
                    else Inr validatedRecord)
     else Inr validatedRecord)"

text \<open>
  One of the three category blocks: the field's name \<open>f\<close>, its length ceiling \<open>n\<close>
  and the ceiling as the message prints it.
\<close>

definition category_field :: "jsval \<Rightarrow> string \<Rightarrow> nat \<Rightarrow> string \<Rightarrow> jsval \<Rightarrow> error + jsval" where
  "category_field record f n shown validatedRecord =
    (if get_prop record (lit f) \<noteq> JUndefined
     then if typeof (get_prop record (lit f)) \<noteq> ''string''
             \<or> length (str_value (get_prop record (lit f))) = 0
          then Inl (Error (f @ '' must be a non-empty string''))
          else if length (str_value (get_prop record (lit f))) > n
          then Inl (Error (f @ '' must be '' @ shown @ '' characters or less''))
          else Inr (set_prop validatedRecord (lit f) (get_prop record (lit f)))
     else Inr validatedRecord)"

definition validateCheckinRecord :: "runtime \<Rightarrow> jsval \<Rightarrow> error + jsval" where
  "validateCheckinRecord rt record =
    (if typeof record \<noteq> ''object'' \<or> record = JNull
     then Inl (Error ''Record must be an object'')
     else if \<not> truthy (get_prop record (lit ''text''))
        \<or> typeof (get_prop record (lit ''text'')) \<noteq> ''string''
     then Inl (Error ''Record must have a text field'')
     else if length (str_value (get_prop record (lit ''text''))) > 300
     then Inl (Error ''text must be 300 characters or less'')
     else if \<not> truthy (get_prop record (lit ''createdAt''))
        \<or> typeof (get_prop record (lit ''createdAt'')) \<noteq> ''string''
     then Inl (Error ''Record must have a createdAt field'')
     else if isNaN (Date_parse rt (str_value (get_prop record (lit ''createdAt''))))
     then Inl (Error ''createdAt must be a valid ISO timestamp'')
     else
       (case validate_locations rt record
              (JObj [(lit ''$type'', JStr (lit ''app.dropanchor.checkin'')),
                     (lit ''text'', get_prop record (lit ''text'')),
                     (lit ''createdAt'', get_prop record (lit ''createdAt''))]) of
          Inl e \<Rightarrow> Inl e
        | Inr v1 \<Rightarrow>
          (case category_field record ''category'' 50 ''50'' v1 of
             Inl e \<Rightarrow> Inl e
           | Inr v2 \<Rightarrow>
             (case category_field record ''categoryGroup'' 50 ''50'' v2 of
                Inl e \<Rightarrow> Inl e
              | Inr v3 \<Rightarrow> category_field record ''categoryIcon'' 10 ''10'' v3))))"

section \<open>The record store (backend/database/queries.ts)\<close>

text \<open>
  A row of the table \<open>anchor_checkins_v3\<close>, columns in the order of the
  \<open>CREATE TABLE\<close> statement (\<open>row[0]\<close> is \<open>id\<close>, \<open>row[4]\<close> is \<open>locations\<close>,
  \<open>row[9]\<close> is \<open>cid\<close>). Every column is \<open>TEXT\<close>; a column without \<open>NOT NULL\<close>
  may hold \<open>NULL\<close>, which is \<open>None\<close>.
\<close>

record row =
  col_id :: jsstring
  col_authorDid :: jsstring
  col_text :: jsstring
  col_createdAt :: jsstring
  col_locations :: "jsstring option"
  col_category :: "jsstring option"
  col_categoryGroup :: "jsstring option"
  col_categoryIcon :: "jsstring option"
  col_uri :: jsstring
  col_cid :: "jsstring option"

text \<open>
  The object the read functions build for a row. A field that is \<open>undefined\<close> is
  \<open>None\<close>. \<open>sc_locations\<close> holds whatever \<open>JSON.parse\<close> returned.
\<close>

record StoredCheckin =
  sc_type :: jsstring
  sc_id :: jsstring
  sc_authorDid :: jsstring
  sc_text :: jsstring
  sc_createdAt :: jsstring
  sc_locations :: "jsval option"
  sc_category :: "jsstring option"
  sc_categoryGroup :: "jsstring option"
  sc_categoryIcon :: "jsstring option"
  sc_uri :: jsstring
  sc_cid :: "jsstring option"

text \<open>\<open>row[i] ? String(row[i]) : undefined\<close> on a nullable text column.\<close>

definition string_or_undefined :: "jsstring option \<Rightarrow> jsstring option" where
  "string_or_undefined c = (case c of None \<Rightarrow> None | Some s \<Rightarrow> if s \<noteq> [] then Some s else None)"

text \<open>
  The conversion of one row. The source has this block three times, word for word: in
  \<open>getCheckinByUri\<close> and in the \<open>map\<close> callbacks of \<open>getCheckinsByAuthor\<close> and
  \<open>getGlobalFeed\<close>. The \<open>catch\<close> branch only logs, so \<open>locations\<close> stays
  \<open>undefined\<close> when \<open>JSON.parse\<close> throws.
\<close>

definition row_to_checkin :: "runtime \<Rightarrow> row \<Rightarrow> StoredCheckin" where
  "row_to_checkin rt r =
    (let locationsJson = string_or_undefined (col_locations r);
         locations = (case locationsJson of
                        None \<Rightarrow> None
                      | Some j \<Rightarrow> (case JSON_parse rt j of Some v \<Rightarrow> Some v | None \<Rightarrow> None))
     in \<lparr> sc_type = lit ''app.dropanchor.checkin'',
          sc_id = col_id r,
          sc_authorDid = col_authorDid r,
          sc_text = col_text r,
          sc_createdAt = col_createdAt r,
          sc_locations = locations,
          sc_category = string_or_undefined (col_category r),
          sc_categoryGroup = string_or_undefined (col_categoryGroup r),
          sc_categoryIcon = string_or_undefined (col_categoryIcon r),
          sc_uri = col_uri r,
          sc_cid = string_or_undefined (col_cid r) \<rparr>)"

text \<open>
  The SQL the functions send, as SQLite runs it. \<open>LIMIT n\<close>: at most \<open>n\<close> rows, and
  no upper bound when \<open>n\<close> is negative (SQLite: "If the LIMIT expression evaluates to a
  negative value, then there is no upper bound on the number of rows returned").
  \<open>ORDER BY createdAt DESC\<close> and \<open>createdAt < ?\<close>: the text order of the column.
  SQLite compares the UTF-8 bytes; the model compares the code units, which is the same
  order on the ASCII timestamps the program stores and can differ on other text. Which
  of two rows with the same \<open>createdAt\<close> comes first is the engine's choice, and the
  model fixes one. No theorem below depends on the order of the rows.
\<close>

definition sql_limit :: "int \<Rightarrow> 'a list \<Rightarrow> 'a list" where
  "sql_limit n xs = (if n < 0 then xs else take (nat n) xs)"

definition order_by_createdAt_desc :: "row list \<Rightarrow> row list" where
  "order_by_createdAt_desc rows = rev (sort_key col_createdAt rows)"

text \<open>\<open>if (cursor)\<close>: the cursor was passed and is not the empty string.\<close>

definition cursor_given :: "jsstring option \<Rightarrow> bool" where
  "cursor_given cursor = (case cursor of None \<Rightarrow> False | Some c \<Rightarrow> c \<noteq> [])"

text \<open>The default parameter \<open>limit = 50\<close>: \<open>None\<close> is an omitted argument.\<close>

definition limit_or_default :: "int option \<Rightarrow> int" where
  "limit_or_default limit = (case limit of None \<Rightarrow> 50 | Some n \<Rightarrow> n)"

definition getCheckinByUri :: "runtime \<Rightarrow> jsstring \<Rightarrow> row list \<Rightarrow> StoredCheckin option" where
  "getCheckinByUri rt uri table =
    (case filter (\<lambda>r. col_uri r = uri) table of
       [] \<Rightarrow> None
     | r # _ \<Rightarrow> Some (row_to_checkin rt r))"

definition getCheckinsByAuthor ::
  "runtime \<Rightarrow> jsstring \<Rightarrow> int option \<Rightarrow> jsstring option \<Rightarrow> row list \<Rightarrow> StoredCheckin list" where
  "getCheckinsByAuthor rt authorDid limit cursor table =
    map (row_to_checkin rt)
      (sql_limit (limit_or_default limit)
        (order_by_createdAt_desc
          (filter (\<lambda>r. col_authorDid r = authorDid
                       \<and> (if cursor_given cursor then col_createdAt r < the cursor else True))
             table)))"

definition getGlobalFeed ::
  "runtime \<Rightarrow> int option \<Rightarrow> jsstring option \<Rightarrow> row list \<Rightarrow> StoredCheckin list" where
  "getGlobalFeed rt limit cursor table =
    (let maxLimit = min (limit_or_default limit) 100
     in map (row_to_checkin rt)
          (sql_limit maxLimit
            (order_by_createdAt_desc
              (filter (\<lambda>r. if cursor_given cursor then col_createdAt r < the cursor else True)
                 table))))"

section \<open>The identity cache (shared/auth.ts)\<close>

record AuthContext =
  did :: jsval
  handle :: jsval

record CacheEntry = AuthContext +
  expires :: int

type_synonym didCache = "jsstring \<rightharpoonup> CacheEntry"

definition CACHE_TTL :: int where
  "CACHE_TTL = 3600000"

definition commonPDSHosts :: "string list" where
  "commonPDSHosts = [''https://bsky.social'', ''https://staging.bsky.dev'']"

text \<open>
  What \<open>fetch\<close> of a host's \<open>getSession\<close> endpoint comes to: the call throws
  (\<open>FetchFailed\<close>), or it answers with \<open>ok\<close> and a body, where the body is what
  \<open>.json()\<close> returns, \<open>None\<close> when that throws.
\<close>

datatype response = FetchFailed | Response bool "jsval option"

text \<open>
  The loop over the hosts. The result is the returned value (\<open>None\<close> is \<open>null\<close>),
  the cache afterwards, and the hosts that were called, in order. \<open>now_set\<close> is what
  \<open>Date.now()\<close> returns when the entry is stored. With a body of \<open>null\<close>, reading
  \<open>session.did\<close> throws inside the \<open>try\<close>, and the loop goes on like after any
  other exception.
\<close>

fun try_hosts ::
  "(string \<Rightarrow> jsstring \<Rightarrow> response) \<Rightarrow> int \<Rightarrow> jsstring \<Rightarrow> didCache \<Rightarrow> string list
     \<Rightarrow> AuthContext option \<times> didCache \<times> string list" where
  "try_hosts fetch now_set token cache [] = (None, cache, [])"
| "try_hosts fetch now_set token cache (pdsHost # rest) =
    (case fetch pdsHost token of
       Response True (Some session) \<Rightarrow>
         if session = JNull \<or> session = JUndefined
         then (case try_hosts fetch now_set token cache rest of
                 (result, cache', calls) \<Rightarrow> (result, cache', pdsHost # calls))
         else (Some \<lparr> did = get_prop session (lit ''did''),
                       handle = get_prop session (lit ''handle'') \<rparr>,
               cache(token \<mapsto> \<lparr> did = get_prop session (lit ''did''),
                                 handle = get_prop session (lit ''handle''),
                                 expires = now_set + CACHE_TTL \<rparr>),
               [pdsHost])
     | _ \<Rightarrow> (case try_hosts fetch now_set token cache rest of
               (result, cache', calls) \<Rightarrow> (result, cache', pdsHost # calls)))"

text \<open>\<open>now\<close> is what \<open>Date.now()\<close> returns at the cache check.\<close>

definition validateToken ::
  "(string \<Rightarrow> jsstring \<Rightarrow> response) \<Rightarrow> int \<Rightarrow> int \<Rightarrow> jsstring \<Rightarrow> didCache
     \<Rightarrow> AuthContext option \<times> didCache \<times> string list" where
  "validateToken fetch now now_set token cache =
    (if cache token \<noteq> None \<and> expires (the (cache token)) > now
     then (Some \<lparr> did = did (the (cache token)), handle = handle (the (cache token)) \<rparr>,
           cache, [])
     else try_hosts fetch now_set token cache commonPDSHosts)"

section \<open>A runtime for the examples\<close>

text \<open>
  \<open>parseFloat\<close> after its ECMAScript definition: leading white space is dropped, the
  longest prefix that is a \<open>StrDecimalLiteral\<close> is read (a sign, then \<open>Infinity\<close>
  or digits with an optional fraction and an optional exponent), and the result is NaN
  when there is no such prefix. The function works on the code units as numbers and
  returns the exact decimal value; the engine rounds that value to binary64 (and to an
  infinity beyond the binary64 range), which changes nothing where the value is a
  binary64 number already (such as 45) and can change the outcome of a range test only
  within one rounding step of a bound. The theorems below hold for every
  \<open>parseFloat\<close>; this one serves the examples, at strings where the rounding does not
  change the outcome.
\<close>

definition is_digit :: "nat \<Rightarrow> bool" where
  "is_digit c = (48 \<le> c \<and> c \<le> 57)"

definition is_white_space :: "nat \<Rightarrow> bool" where
  "is_white_space c =
    (c \<in> {9, 10, 11, 12, 13, 32, 160, 5760, 8232, 8233, 8239, 8287, 12288, 65279}
     \<or> (8192 \<le> c \<and> c \<le> 8202))"

definition digits_value :: "nat list \<Rightarrow> nat" where
  "digits_value ds = foldl (\<lambda>acc c. 10 * acc + (c - 48)) 0 ds"

text \<open>The exponent: \<open>e\<close> or \<open>E\<close>, an optional sign, at least one digit; 0 otherwise.\<close>

definition exponent_part :: "nat list \<Rightarrow> int" where
  "exponent_part cs =
    (case cs of
       [] \<Rightarrow> 0
     | e # r \<Rightarrow>
         if e = 101 \<or> e = 69
         then (case r of
                 [] \<Rightarrow> 0
               | s # r' \<Rightarrow>
                   if s = 45 then - int (digits_value (takeWhile is_digit r'))
                   else if s = 43 then int (digits_value (takeWhile is_digit r'))
                   else int (digits_value (takeWhile is_digit r)))
         else 0)"

definition scale10 :: "real \<Rightarrow> int \<Rightarrow> real" where
  "scale10 m e = (if 0 \<le> e then m * 10 ^ nat e else m / 10 ^ nat (- e))"

definition unsigned_literal :: "nat list \<Rightarrow> jsnum" where
  "unsigned_literal cs =
    (if take 8 cs = map of_char ''Infinity'' then PosInfinity
     else
       let ip = takeWhile is_digit cs;
           r1 = dropWhile is_digit cs;
           fp = (if r1 \<noteq> [] \<and> hd r1 = 46 then takeWhile is_digit (tl r1) else []);
           r2 = (if r1 \<noteq> [] \<and> hd r1 = 46 then dropWhile is_digit (tl r1) else r1)
       in if ip = [] \<and> fp = [] then NaN
          else Fin (scale10 (real (digits_value ip) + real (digits_value fp) / 10 ^ length fp)
                            (exponent_part r2)))"

definition negate :: "jsnum \<Rightarrow> jsnum" where
  "negate x = (case x of NaN \<Rightarrow> NaN | PosInfinity \<Rightarrow> NegInfinity
                | NegInfinity \<Rightarrow> PosInfinity | Fin r \<Rightarrow> Fin (- r))"

definition parseFloat_decimal :: "jsstring \<Rightarrow> jsnum" where
  "parseFloat_decimal s =
    (case dropWhile is_white_space (map unat s) of
       [] \<Rightarrow> NaN
     | c # cs \<Rightarrow>
         if c = 45 then negate (unsigned_literal cs)
         else if c = 43 then unsigned_literal cs
         else unsigned_literal (c # cs))"

text \<open>
  \<open>Date.parse\<close> and \<open>JSON.parse\<close> restricted to the strings of the examples:
  the timestamp \<open>2025-06-15T13:00:00Z\<close> (1749992400000 ms after the epoch), the
  JSON document \<open>[]\<close>, and strings such as \<open>not-a-date\<close> and \<open>{oops\<close> that neither
  function accepts.
\<close>

definition example_runtime :: runtime where
  "example_runtime =
    \<lparr> Date_parse = (\<lambda>s. if s = lit ''2025-06-15T13:00:00Z'' then Fin 1749992400000 else NaN),
      parseFloat = parseFloat_decimal,
      JSON_parse = (\<lambda>s. if s = lit ''[]'' then Some (JArr []) else None) \<rparr>"

section \<open>The validation rules, one by one\<close>

text \<open>
  The rules as the specification lists them, each one judged on the input alone, whether
  or not an earlier rule already failed. \<open>violations\<close> collects every violation of an
  input in the specification's order: not an object; text missing; text too long;
  createdAt missing; timestamp unparseable; locations not an array; the elements of
  locations in sequence order; category, categoryGroup, categoryIcon.
\<close>

definition viol :: "bool \<Rightarrow> error \<Rightarrow> error list" where
  "viol b e = (if b then [e] else [])"

definition nonempty_string :: "jsval \<Rightarrow> bool" where
  "nonempty_string x = (case x of JStr s \<Rightarrow> s \<noteq> [] | _ \<Rightarrow> False)"

definition is_string :: "jsval \<Rightarrow> bool" where
  "is_string x = (case x of JStr s \<Rightarrow> True | _ \<Rightarrow> False)"

definition out_of_range :: "real \<Rightarrow> real \<Rightarrow> jsnum \<Rightarrow> bool" where
  "out_of_range lo hi x =
    (case x of NaN \<Rightarrow> True | PosInfinity \<Rightarrow> True | NegInfinity \<Rightarrow> True
     | Fin r \<Rightarrow> r < lo \<or> hi < r)"

text \<open>A non-null structured value: an object or an array (an array is an object too).\<close>

definition structured_object :: "jsval \<Rightarrow> bool" where
  "structured_object x = (case x of JObj kvs \<Rightarrow> True | JArr xs \<Rightarrow> True | _ \<Rightarrow> False)"

definition geo_violations :: "runtime \<Rightarrow> jsval \<Rightarrow> error list" where
  "geo_violations rt l =
    viol (\<not> nonempty_string (get_prop l (lit ''latitude'')))
         (Error ''geo location must have latitude as string'')
    @ viol (\<not> nonempty_string (get_prop l (lit ''longitude'')))
         (Error ''geo location must have longitude as string'')
    @ viol (is_string (get_prop l (lit ''latitude''))
            \<and> out_of_range (- 90) 90 (parseFloat rt (str_value (get_prop l (lit ''latitude'')))))
         (Error ''latitude must be a valid number between -90 and 90'')
    @ viol (is_string (get_prop l (lit ''longitude''))
            \<and> out_of_range (- 180) 180 (parseFloat rt (str_value (get_prop l (lit ''longitude'')))))
         (Error ''longitude must be a valid number between -180 and 180'')"

definition address_violations :: "jsval \<Rightarrow> error list" where
  "address_violations l =
    concat (map (\<lambda>f. viol (get_prop l (lit f) \<noteq> JUndefined \<and> \<not> is_string (get_prop l (lit f)))
                          (Error (f @ '' must be a string'')))
      [''street'', ''locality'', ''region'', ''country'', ''postalCode'', ''name''])"

definition location_violations :: "runtime \<Rightarrow> jsval \<Rightarrow> error list" where
  "location_violations rt l =
    (if l = JNull \<or> l = JUndefined then [TypeError]
     else if \<not> truthy (get_prop l (lit ''$type''))
       then [Error ''Each location must have a $type field'']
     else if get_prop l (lit ''$type'') = JStr (lit ''community.lexicon.location.geo'')
       then geo_violations rt l
     else if get_prop l (lit ''$type'') = JStr (lit ''community.lexicon.location.address'')
       then address_violations l
     else [UnsupportedLocationType (get_prop l (lit ''$type''))])"

definition category_violations :: "jsval \<Rightarrow> string \<Rightarrow> nat \<Rightarrow> string \<Rightarrow> error list" where
  "category_violations r f n shown =
    viol (get_prop r (lit f) \<noteq> JUndefined \<and> \<not> nonempty_string (get_prop r (lit f)))
         (Error (f @ '' must be a non-empty string''))
    @ viol (is_string (get_prop r (lit f)) \<and> length (str_value (get_prop r (lit f))) > n)
         (Error (f @ '' must be '' @ shown @ '' characters or less''))"

definition violations :: "runtime \<Rightarrow> jsval \<Rightarrow> error list" where
  "violations rt r =
    viol (\<not> structured_object r) (Error ''Record must be an object'')
    @ viol (\<not> nonempty_string (get_prop r (lit ''text''))) (Error ''Record must have a text field'')
    @ viol (is_string (get_prop r (lit ''text''))
            \<and> length (str_value (get_prop r (lit ''text''))) > 300)
         (Error ''text must be 300 characters or less'')
    @ viol (\<not> nonempty_string (get_prop r (lit ''createdAt'')))
         (Error ''Record must have a createdAt field'')
    @ viol (is_string (get_prop r (lit ''createdAt''))
            \<and> Date_parse rt (str_value (get_prop r (lit ''createdAt''))) = NaN)
         (Error ''createdAt must be a valid ISO timestamp'')
    @ viol (get_prop r (lit ''locations'') \<noteq> JUndefined \<and> \<not> isArray (get_prop r (lit ''locations'')))
         (Error ''locations must be an array'')
    @ concat (map (location_violations rt) (elements (get_prop r (lit ''locations''))))
    @ category_violations r ''category'' 50 ''50''
    @ category_violations r ''categoryGroup'' 50 ''50''
    @ category_violations r ''categoryIcon'' 10 ''10''"

section \<open>Notions for the identity cache claims\<close>

text \<open>
  A host accepts the token when its answer is \<open>ok\<close> and carries a body the program can
  read; \<open>session_identity\<close> is the identity the program takes from that body.
  \<open>hosts_called\<close> selects the hosts a run of \<open>validateToken\<close> called.
\<close>

definition accepts :: "response \<Rightarrow> bool" where
  "accepts r =
    (case r of
       Response ok (Some session) \<Rightarrow> ok \<and> session \<noteq> JNull \<and> session \<noteq> JUndefined
     | _ \<Rightarrow> False)"

definition session_identity :: "response \<Rightarrow> AuthContext" where
  "session_identity r =
    (case r of
       Response ok (Some session) \<Rightarrow>
         \<lparr> did = get_prop session (lit ''did''), handle = get_prop session (lit ''handle'') \<rparr>
     | _ \<Rightarrow> \<lparr> did = JUndefined, handle = JUndefined \<rparr>)"

definition hosts_called :: "AuthContext option \<times> didCache \<times> string list \<Rightarrow> string list" where
  "hosts_called out = snd (snd out)"

text \<open>Example data: a token, two behaviours of the hosts, a cache with one entry.\<close>

definition example_token :: jsstring where
  "example_token = lit ''eyJ0eXAiOiJKV1QifQ.example''"

definition example_fetch_accepting :: "string \<Rightarrow> jsstring \<Rightarrow> response" where
  "example_fetch_accepting host token =
    (if host = ''https://bsky.social'' \<and> token = example_token
     then Response True (Some (JObj [(lit ''did'', JStr (lit ''did:plc:new'')),
                                     (lit ''handle'', JStr (lit ''new.bsky.social''))]))
     else Response False None)"

definition example_fetch_rejecting :: "string \<Rightarrow> jsstring \<Rightarrow> response" where
  "example_fetch_rejecting host token =
    (if host = ''https://bsky.social'' then Response False None else FetchFailed)"

definition example_expired_cache :: didCache where
  "example_expired_cache =
    [example_token \<mapsto> \<lparr> did = JStr (lit ''did:plc:old''),
                          handle = JStr (lit ''old.bsky.social''),
                          expires = 1750000000000 \<rparr>]"

section \<open>Notions and example data for the validator claims\<close>

text \<open>
  The first of a list of violations, and the error of a result: the two sides of the
  comparison between the rules and the code.
\<close>

definition first_of :: "error list \<Rightarrow> error option" where
  "first_of es = (case es of [] \<Rightarrow> None | e # _ \<Rightarrow> Some e)"

definition rejection :: "error + 'a \<Rightarrow> error option" where
  "rejection res = (case res of Inl e \<Rightarrow> Some e | Inr _ \<Rightarrow> None)"

text \<open>An input that violates six rules at once.\<close>

definition example_bad_record :: jsval where
  "example_bad_record =
    JObj [(lit ''text'', JNum (Fin 5)),
          (lit ''createdAt'', JStr (lit ''not-a-date'')),
          (lit ''locations'',
             JArr [JObj [(lit ''$type'', JStr (lit ''community.lexicon.location.geo'')),
                         (lit ''latitude'', JStr (lit ''95'')),
                         (lit ''longitude'', JStr (lit ''200''))],
                   JObj [(lit ''$type'', JStr (lit ''unknown.type''))]]),
          (lit ''category'', JStr [])]"

text \<open>Example inputs: a record with an empty text, a geo location, a check-in with locations.\<close>

definition example_empty_text_record :: jsval where
  "example_empty_text_record =
    JObj [(lit ''text'', JStr []),
          (lit ''createdAt'', JStr (lit ''2025-06-15T13:00:00Z''))]"

definition geo_location :: "jsstring \<Rightarrow> jsstring \<Rightarrow> jsval" where
  "geo_location lat lng =
    JObj [(lit ''$type'', JStr (lit ''community.lexicon.location.geo'')),
          (lit ''latitude'', JStr lat),
          (lit ''longitude'', JStr lng)]"

definition example_checkin :: "jsval list \<Rightarrow> jsval" where
  "example_checkin locations =
    JObj [(lit ''text'', JStr (lit ''Coffee'')),
          (lit ''createdAt'', JStr (lit ''2025-06-15T13:00:00Z'')),
          (lit ''locations'', JArr locations)]"

section \<open>Notions and example data for the record store claims\<close>

text \<open>
  A table of \<open>n\<close> rows with distinct keys, and a row whose locations column holds a
  string that is not JSON.
\<close>

definition example_row :: "nat \<Rightarrow> row" where
  "example_row i =
    \<lparr> col_id = lit ''rkey-'' @ replicate i 120,
      col_authorDid = lit ''did:plc:example123'',
      col_text = lit ''Coffee'',
      col_createdAt = lit ''2025-06-15T13:00:00Z'',
      col_locations = None,
      col_category = None,
      col_categoryGroup = None,
      col_categoryIcon = None,
      col_uri = lit ''at://did:plc:example123/app.dropanchor.checkin/rkey-'' @ replicate i 120,
      col_cid = Some (lit ''baf123abc456'') \<rparr>"

definition example_table :: "nat \<Rightarrow> row list" where
  "example_table n = map example_row [0..<n]"

definition example_corrupt_row :: row where
  "example_corrupt_row =
    \<lparr> col_id = lit ''rkey-corrupt'',
      col_authorDid = lit ''did:plc:example123'',
      col_text = lit ''Coffee'',
      col_createdAt = lit ''2025-06-15T13:00:00Z'',
      col_locations = Some (lit ''{oops''),
      col_category = Some (lit ''cafe''),
      col_categoryGroup = None,
      col_categoryIcon = None,
      col_uri = lit ''at://did:plc:example123/app.dropanchor.checkin/rkey-corrupt'',
      col_cid = Some (lit ''baf123abc456'') \<rparr>"

definition example_corrupt_table :: "row list" where
  "example_corrupt_table = [example_row 0, example_corrupt_row\<lparr> col_createdAt := lit ''2025-06-16T09:30:00Z'' \<rparr>]"

text \<open>
  A row's locations column is malformed when it holds a string that \<open>JSON.parse\<close>
  rejects. \<open>null_malformed_locations\<close> is the same row with \<open>NULL\<close> in that column.
\<close>

definition malformed_locations :: "runtime \<Rightarrow> row \<Rightarrow> bool" where
  "malformed_locations rt r =
    (case col_locations r of None \<Rightarrow> False | Some s \<Rightarrow> JSON_parse rt s = None)"

definition null_malformed_locations :: "runtime \<Rightarrow> row \<Rightarrow> row" where
  "null_malformed_locations rt r =
    (if malformed_locations rt r then r\<lparr> col_locations := None \<rparr> else r)"

section \<open>The validated record\<close>

text \<open>
  What an accepted input is turned into, written out: the names of an object's
  properties, a property that is copied when the input has it, the validated elements of
  a locations array, and the record \<open>validateCheckinRecord\<close> builds.
\<close>

definition prop_names :: "jsval \<Rightarrow> jsstring list" where
  "prop_names x = (case x of JObj kvs \<Rightarrow> map fst kvs | _ \<Rightarrow> [])"

definition opt_prop :: "jsval \<Rightarrow> string \<Rightarrow> (jsstring \<times> jsval) list" where
  "opt_prop r f =
    (if get_prop r (lit f) = JUndefined then [] else [(lit f, get_prop r (lit f))])"

definition validated_locations :: "runtime \<Rightarrow> jsval list \<Rightarrow> jsval list" where
  "validated_locations rt ls =
    (case validate_locations_loop rt ls [] of Inl e \<Rightarrow> [] | Inr vs \<Rightarrow> vs)"

definition validated_record :: "runtime \<Rightarrow> jsval \<Rightarrow> jsval" where
  "validated_record rt r =
    JObj ([(lit ''$type'', JStr (lit ''app.dropanchor.checkin'')),
           (lit ''text'', get_prop r (lit ''text'')),
           (lit ''createdAt'', get_prop r (lit ''createdAt''))]
          @ (if validated_locations rt (elements (get_prop r (lit ''locations''))) = [] then []
             else [(lit ''locations'',
                    JArr (validated_locations rt (elements (get_prop r (lit ''locations'')))))])
          @ opt_prop r ''category''
          @ opt_prop r ''categoryGroup''
          @ opt_prop r ''categoryIcon'')"

text \<open>
  An input with an unknown \<open>$type\<close>, properties the schema does not know, and
  properties in an order of its own; and the record the validator makes of it.
\<close>

definition example_full_checkin :: jsval where
  "example_full_checkin =
    JObj [(lit ''$type'', JStr (lit ''something.else'')),
          (lit ''text'', JStr (lit ''Coffee'')),
          (lit ''createdAt'', JStr (lit ''2025-06-15T13:00:00Z'')),
          (lit ''locations'',
             JArr [JObj [(lit ''$type'', JStr (lit ''community.lexicon.location.geo'')),
                         (lit ''latitude'', JStr (lit ''40.7128'')),
                         (lit ''longitude'', JStr (lit ''-74.0060'')),
                         (lit ''altitude'', JNum (Fin 12))],
                   JObj [(lit ''name'', JStr (lit ''Central Perk'')),
                         (lit ''$type'', JStr (lit ''community.lexicon.location.address'')),
                         (lit ''floor'', JNum (Fin 2)),
                         (lit ''locality'', JStr (lit ''New York''))]]),
          (lit ''rating'', JNum (Fin 5)),
          (lit ''categoryIcon'', JStr (lit ''*'')),
          (lit ''category'', JStr (lit ''cafe''))]"

definition example_full_validated :: jsval where
  "example_full_validated =
    JObj [(lit ''$type'', JStr (lit ''app.dropanchor.checkin'')),
          (lit ''text'', JStr (lit ''Coffee'')),
          (lit ''createdAt'', JStr (lit ''2025-06-15T13:00:00Z'')),
          (lit ''locations'',
             JArr [JObj [(lit ''$type'', JStr (lit ''community.lexicon.location.geo'')),
                         (lit ''latitude'', JStr (lit ''40.7128'')),
                         (lit ''longitude'', JStr (lit ''-74.0060''))],
                   JObj [(lit ''$type'', JStr (lit ''community.lexicon.location.address'')),
                         (lit ''locality'', JStr (lit ''New York'')),
                         (lit ''name'', JStr (lit ''Central Perk''))]]),
          (lit ''category'', JStr (lit ''cafe'')),
          (lit ''categoryIcon'', JStr (lit ''*''))]"

section \<open>Basic facts\<close>

lemma unat_lit_char: "unat (of_nat (of_char c) :: 16 word) = of_char c"
proof -
  have "(of_char c :: nat) mod 256 = of_char c" by simp
  then have "(of_char c :: nat) < 256"
    by (metis mod_less_divisor zero_less_numeral)
  then have "(of_char c :: nat) < 65536" by linarith
  then show ?thesis by (simp add: unat_of_nat)
qed

lemma lit_eq_iff [simp]: "lit a = lit b \<longleftrightarrow> a = b"
proof
  assume "lit a = lit b"
  then have "map unat (lit a) = map unat (lit b)" by simp
  then have "map (of_char :: char \<Rightarrow> nat) a = map of_char b"
    by (simp add: lit_def unat_lit_char comp_def)
  then show "a = b" by (simp add: inj_map_eq_map [OF inj_of_char])
qed simp

lemma length_lit [simp]: "length (lit s) = length s"
  by (simp add: lit_def)

lemma lit_Nil_iff [simp]: "lit s = [] \<longleftrightarrow> s = []"
  by (simp add: lit_def)

section \<open>The identity cache\<close>

lemma try_hosts_reject:
  "\<not> accepts (fetch h token) \<Longrightarrow>
   try_hosts fetch now_set token cache (h # hs) =
     (case try_hosts fetch now_set token cache hs of
        (result, cache', calls) \<Rightarrow> (result, cache', h # calls))"
  by (cases "fetch h token") (auto simp: accepts_def split: option.splits bool.splits)

lemma try_hosts_accept:
  "accepts (fetch h token) \<Longrightarrow>
   try_hosts fetch now_set token cache (h # hs) =
     (Some (session_identity (fetch h token)),
      cache(token \<mapsto> \<lparr> did = did (session_identity (fetch h token)),
                        handle = handle (session_identity (fetch h token)),
                        expires = now_set + 3600000 \<rparr>),
      [h])"
  by (cases "fetch h token")
     (auto simp: accepts_def session_identity_def CACHE_TTL_def split: option.splits bool.splits)

lemma try_hosts_find:
  "try_hosts fetch now_set token cache hs =
    (case List.find (\<lambda>h. accepts (fetch h token)) hs of
       None \<Rightarrow> (None, cache, hs)
     | Some h \<Rightarrow> (Some (session_identity (fetch h token)),
                  cache(token \<mapsto> \<lparr> did = did (session_identity (fetch h token)),
                                    handle = handle (session_identity (fetch h token)),
                                    expires = now_set + 3600000 \<rparr>),
                  takeWhile (\<lambda>g. \<not> accepts (fetch g token)) hs @ [h]))"
proof (induction hs)
  case Nil
  show ?case by simp
next
  case (Cons h hs)
  show ?case
  proof (cases "accepts (fetch h token)")
    case True
    then show ?thesis by (simp add: try_hosts_accept del: try_hosts.simps)
  next
    case False
    then show ?thesis by (auto simp add: try_hosts_reject Cons.IH simp del: try_hosts.simps split: option.splits)
  qed
qed


lemma commonPDSHosts_not_Nil: "commonPDSHosts \<noteq> []"
  by (simp add: commonPDSHosts_def)

lemma try_hosts_calls_not_Nil:
  "hs \<noteq> [] \<Longrightarrow> hosts_called (try_hosts fetch now_set token cache hs) \<noteq> []"
  by (simp add: try_hosts_find hosts_called_def split: option.splits)

lemma validateToken_stale:
  "\<not> (cache token \<noteq> None \<and> expires (the (cache token)) > now) \<Longrightarrow>
   validateToken fetch now now_set token cache = try_hosts fetch now_set token cache commonPDSHosts"
  unfolding validateToken_def by (rule if_not_P)

text \<open>
  Claim C4. Whatever the cache holds: when it has no entry for the token, or an entry
  whose \<open>expires\<close> is not after the current time, the entry plays no part and the run
  is the resolution against the hosts, which returns \<open>null\<close> after asking every host
  and leaves the cache as it was, or returns the identity of the first host that accepts
  and stores it under the token with \<open>expires\<close> exactly 3600000 ms (one hour) after
  the time of insertion. An entry is returned, without a call to any host, only while
  the current time is before its \<open>expires\<close>; and a run that called no host answered
  from such an entry.
\<close>

theorem validateToken_expired_entry:
  "(cache token = None \<or> (\<exists>entry. cache token = Some entry \<and> expires entry \<le> now) \<longrightarrow>
      validateToken fetch now now_set token cache =
        (case List.find (\<lambda>h. accepts (fetch h token)) commonPDSHosts of
           None \<Rightarrow> (None, cache, commonPDSHosts)
         | Some h \<Rightarrow>
             (Some (session_identity (fetch h token)),
              cache(token \<mapsto> \<lparr> did = did (session_identity (fetch h token)),
                                handle = handle (session_identity (fetch h token)),
                                expires = now_set + 3600000 \<rparr>),
              takeWhile (\<lambda>g. \<not> accepts (fetch g token)) commonPDSHosts @ [h])))
   \<and> (\<forall>entry. cache token = Some entry \<and> now < expires entry \<longrightarrow>
        validateToken fetch now now_set token cache
          = (Some \<lparr> did = did entry, handle = handle entry \<rparr>, cache, []))
   \<and> (hosts_called (validateToken fetch now now_set token cache) = [] \<longrightarrow>
        (\<exists>entry. cache token = Some entry \<and> now < expires entry
           \<and> fst (validateToken fetch now now_set token cache)
               = Some \<lparr> did = did entry, handle = handle entry \<rparr>))"
proof (intro conjI allI impI)
  assume "cache token = None \<or> (\<exists>entry. cache token = Some entry \<and> expires entry \<le> now)"
  then have "\<not> (cache token \<noteq> None \<and> expires (the (cache token)) > now)"
    by auto
  then have "validateToken fetch now now_set token cache
               = try_hosts fetch now_set token cache commonPDSHosts"
    by (rule validateToken_stale)
  then show "validateToken fetch now now_set token cache =
        (case List.find (\<lambda>h. accepts (fetch h token)) commonPDSHosts of
           None \<Rightarrow> (None, cache, commonPDSHosts)
         | Some h \<Rightarrow>
             (Some (session_identity (fetch h token)),
              cache(token \<mapsto> \<lparr> did = did (session_identity (fetch h token)),
                                handle = handle (session_identity (fetch h token)),
                                expires = now_set + 3600000 \<rparr>),
              takeWhile (\<lambda>g. \<not> accepts (fetch g token)) commonPDSHosts @ [h]))"
    by (simp only: try_hosts_find)
next
  fix entry
  assume "cache token = Some entry \<and> now < expires entry"
  then show "validateToken fetch now now_set token cache
          = (Some \<lparr> did = did entry, handle = handle entry \<rparr>, cache, [])"
    by (simp add: validateToken_def)
next
  assume none: "hosts_called (validateToken fetch now now_set token cache) = []"
  show "\<exists>entry. cache token = Some entry \<and> now < expires entry
           \<and> fst (validateToken fetch now now_set token cache)
               = Some \<lparr> did = did entry, handle = handle entry \<rparr>"
  proof (cases "cache token \<noteq> None \<and> expires (the (cache token)) > now")
    case True
    then show ?thesis by (auto simp: validateToken_def)
  next
    case False
    then have "validateToken fetch now now_set token cache
                 = try_hosts fetch now_set token cache commonPDSHosts"
      by (rule validateToken_stale)
    with none try_hosts_calls_not_Nil [OF commonPDSHosts_not_Nil] show ?thesis
      by metis
  qed
qed

theorem validateToken_expired_entry_witness:
  "example_expired_cache example_token
      = Some \<lparr> did = JStr (lit ''did:plc:old''), handle = JStr (lit ''old.bsky.social''),
               expires = 1750000000000 \<rparr>
   \<and> fst (validateToken example_fetch_accepting 1750000000000 1750000000250
            example_token example_expired_cache)
      = Some \<lparr> did = JStr (lit ''did:plc:new''), handle = JStr (lit ''new.bsky.social'') \<rparr>
   \<and> fst (snd (validateToken example_fetch_accepting 1750000000000 1750000000250
            example_token example_expired_cache)) example_token
      = Some \<lparr> did = JStr (lit ''did:plc:new''), handle = JStr (lit ''new.bsky.social''),
               expires = 1750003600250 \<rparr>
   \<and> hosts_called (validateToken example_fetch_accepting 1750000000000 1750000000250
            example_token example_expired_cache) = [''https://bsky.social'']
   \<and> fst (snd (validateToken example_fetch_accepting 1750000000000 1750000000250
            example_token Map.empty)) example_token
      = Some \<lparr> did = JStr (lit ''did:plc:new''), handle = JStr (lit ''new.bsky.social''),
               expires = 1750003600250 \<rparr>
   \<and> validateToken example_fetch_rejecting 1749999999999 1750000000250
            example_token example_expired_cache
      = (Some \<lparr> did = JStr (lit ''did:plc:old''), handle = JStr (lit ''old.bsky.social'') \<rparr>,
         example_expired_cache, [])"
proof -
  note stale = validateToken_expired_entry
      [of example_expired_cache example_token 1750000000000 example_fetch_accepting 1750000000250,
       THEN conjunct1]
  note first = validateToken_expired_entry
      [of Map.empty example_token 1750000000000 example_fetch_accepting 1750000000250,
       THEN conjunct1]
  note hit = validateToken_expired_entry
      [of example_expired_cache example_token 1749999999999 example_fetch_rejecting 1750000000250,
       THEN conjunct2, THEN conjunct1]
  have entry: "example_expired_cache example_token
      = Some \<lparr> did = JStr (lit ''did:plc:old''), handle = JStr (lit ''old.bsky.social''),
               expires = 1750000000000 \<rparr>"
    by (simp add: example_expired_cache_def)
  have found: "List.find (\<lambda>h. accepts (example_fetch_accepting h example_token)) commonPDSHosts
                 = Some ''https://bsky.social''"
    by (simp add: commonPDSHosts_def example_fetch_accepting_def accepts_def)
  have ident: "session_identity (example_fetch_accepting ''https://bsky.social'' example_token)
                 = \<lparr> did = JStr (lit ''did:plc:new''), handle = JStr (lit ''new.bsky.social'') \<rparr>"
    by (simp add: example_fetch_accepting_def session_identity_def)
  have calls: "takeWhile (\<lambda>g. \<not> accepts (example_fetch_accepting g example_token)) commonPDSHosts
                 = []"
    by (simp add: commonPDSHosts_def example_fetch_accepting_def accepts_def)
  from stale entry have run1:
    "validateToken example_fetch_accepting 1750000000000 1750000000250
        example_token example_expired_cache
       = (Some \<lparr> did = JStr (lit ''did:plc:new''), handle = JStr (lit ''new.bsky.social'') \<rparr>,
          example_expired_cache(example_token \<mapsto>
             \<lparr> did = JStr (lit ''did:plc:new''), handle = JStr (lit ''new.bsky.social''),
               expires = 1750003600250 \<rparr>),
          [''https://bsky.social''])"
    by (simp add: found ident calls)
  from first have run2:
    "validateToken example_fetch_accepting 1750000000000 1750000000250
        example_token Map.empty
       = (Some \<lparr> did = JStr (lit ''did:plc:new''), handle = JStr (lit ''new.bsky.social'') \<rparr>,
          [example_token \<mapsto>
             \<lparr> did = JStr (lit ''did:plc:new''), handle = JStr (lit ''new.bsky.social''),
               expires = 1750003600250 \<rparr>],
          [''https://bsky.social''])"
    by (simp add: found ident calls)
  from hit entry have run3:
    "validateToken example_fetch_rejecting 1749999999999 1750000000250
            example_token example_expired_cache
      = (Some \<lparr> did = JStr (lit ''did:plc:old''), handle = JStr (lit ''old.bsky.social'') \<rparr>,
         example_expired_cache, [])"
    by simp
  from entry run1 run2 run3 show ?thesis by (simp add: hosts_called_def)
qed

text \<open>
  Claim C7. In a run in which every configured host was asked and none accepted the
  token, \<open>validateToken\<close> returns \<open>null\<close> and the cache is what it was: nothing is
  stored for the token. So a later call with the same token asks the hosts again.
  (The hosts are asked exactly when the cache holds no unexpired entry for the token.)
\<close>

theorem validateToken_no_negative_caching:
  assumes "validateToken fetch now now_set token cache = (result, cache', calls)"
    and "calls = commonPDSHosts"
    and "\<forall>h \<in> set commonPDSHosts. \<not> accepts (fetch h token)"
  shows "result = None \<and> cache' = cache
         \<and> (\<forall>fetch' now' now_set'. now \<le> now' \<longrightarrow>
               hosts_called (validateToken fetch' now' now_set' token cache') \<noteq> [])"
proof -
  have stale: "\<not> (cache token \<noteq> None \<and> expires (the (cache token)) > now)"
  proof
    assume "cache token \<noteq> None \<and> expires (the (cache token)) > now"
    then have "validateToken fetch now now_set token cache
                 = (Some \<lparr> did = did (the (cache token)), handle = handle (the (cache token)) \<rparr>,
                    cache, [])"
      by (simp add: validateToken_def)
    with assms(1,2) show False by (simp add: commonPDSHosts_def)
  qed
  then have run: "validateToken fetch now now_set token cache
                    = try_hosts fetch now_set token cache commonPDSHosts"
    by (rule validateToken_stale)
  have "List.find (\<lambda>h. accepts (fetch h token)) commonPDSHosts = None"
    using assms(3) by (simp add: find_None_iff)
  with run have "validateToken fetch now now_set token cache = (None, cache, commonPDSHosts)"
    by (simp add: try_hosts_find)
  with assms(1) have res: "result = None" and same: "cache' = cache" by simp_all
  have again: "hosts_called (validateToken fetch' now' now_set' token cache) \<noteq> []"
    if "now \<le> now'" for fetch' now' now_set'
  proof -
    from stale that have "\<not> (cache token \<noteq> None \<and> expires (the (cache token)) > now')"
      by auto
    then have "validateToken fetch' now' now_set' token cache
                 = try_hosts fetch' now_set' token cache commonPDSHosts"
      by (rule validateToken_stale)
    then show ?thesis
      by (simp add: try_hosts_calls_not_Nil [OF commonPDSHosts_not_Nil])
  qed
  from res same again show ?thesis by blast
qed

theorem validateToken_no_negative_caching_witness:
  "validateToken example_fetch_rejecting 1750000000000 1750000000250
      example_token example_expired_cache
     = (None, example_expired_cache, [''https://bsky.social'', ''https://staging.bsky.dev''])
   \<and> hosts_called (validateToken example_fetch_accepting 1750000005000 1750000005250
        example_token example_expired_cache) = [''https://bsky.social'']"
proof -
  have run: "validateToken example_fetch_rejecting 1750000000000 1750000000250
      example_token example_expired_cache
     = (None, example_expired_cache, [''https://bsky.social'', ''https://staging.bsky.dev''])"
    by (simp add: validateToken_def example_expired_cache_def example_fetch_rejecting_def
          commonPDSHosts_def)
  have rej: "\<forall>h \<in> set commonPDSHosts. \<not> accepts (example_fetch_rejecting h example_token)"
    by (simp add: commonPDSHosts_def example_fetch_rejecting_def accepts_def)
  have hosts: "[''https://bsky.social'', ''https://staging.bsky.dev''] = commonPDSHosts"
    by (simp add: commonPDSHosts_def)
  have "hosts_called (validateToken example_fetch_accepting 1750000005000 1750000005250
        example_token example_expired_cache) \<noteq> []"
    using validateToken_no_negative_caching [OF run hosts rej] by simp
  moreover have "hosts_called (validateToken example_fetch_accepting 1750000005000 1750000005250
        example_token example_expired_cache) = [''https://bsky.social'']"
    by (simp add: validateToken_def example_expired_cache_def example_fetch_accepting_def
          commonPDSHosts_def hosts_called_def)
  ultimately show ?thesis using run by simp
qed

section \<open>The validator rejects with the first violated rule\<close>

lemma not_string_cond: "(\<not> truthy x \<or> typeof x \<noteq> ''string'') \<longleftrightarrow> \<not> nonempty_string x"
  by (cases x) (simp_all add: nonempty_string_def)

lemma not_category_cond:
  "(typeof x \<noteq> ''string'' \<or> length (str_value x) = 0) \<longleftrightarrow> \<not> nonempty_string x"
  by (cases x) (simp_all add: nonempty_string_def)

lemma typeof_string_iff: "typeof x = ''string'' \<longleftrightarrow> is_string x"
  by (cases x) (simp_all add: is_string_def)

lemma not_object_cond: "(typeof r \<noteq> ''object'' \<or> r = JNull) \<longleftrightarrow> \<not> structured_object r"
  by (cases r) (simp_all add: structured_object_def)

lemma range_cond:
  "(isNaN x \<or> num_less x (Fin lo) \<or> num_less (Fin hi) x) \<longleftrightarrow> out_of_range lo hi x"
  by (cases x) (simp_all add: isNaN_def out_of_range_def)

lemma nonempty_string_is_string: "nonempty_string x \<Longrightarrow> is_string x"
  by (cases x) (simp_all add: nonempty_string_def is_string_def)

lemma first_of_simps [simp]:
  "first_of [] = None"
  "first_of (e # es) = Some e"
  "first_of (viol b e) = (if b then Some e else None)"
  "first_of (xs @ ys) = (case first_of xs of None \<Rightarrow> first_of ys | Some e \<Rightarrow> Some e)"
  by (simp_all add: first_of_def viol_def split: list.splits)

lemma rejection_simps [simp]:
  "rejection (Inl e) = Some e"
  "rejection (Inr v) = None"
  by (simp_all add: rejection_def)

lemma rejection_None_iff: "rejection res = None \<longleftrightarrow> (\<exists>v. res = Inr v)"
  by (cases res) simp_all

lemma rejection_Some_iff: "rejection res = Some e \<longleftrightarrow> res = Inl e"
  by (cases res) simp_all

lemma first_of_Some_hd: "first_of es = Some e \<longleftrightarrow> es \<noteq> [] \<and> hd es = e"
  by (cases es) simp_all

lemma first_of_None_iff: "first_of es = None \<longleftrightarrow> es = []"
  by (cases es) simp_all

lemma validateGeoLocation_alt:
  "validateGeoLocation rt l =
    (if \<not> nonempty_string (get_prop l (lit ''latitude''))
     then Inl (Error ''geo location must have latitude as string'')
     else if \<not> nonempty_string (get_prop l (lit ''longitude''))
     then Inl (Error ''geo location must have longitude as string'')
     else if out_of_range (- 90) 90 (parseFloat rt (str_value (get_prop l (lit ''latitude''))))
     then Inl (Error ''latitude must be a valid number between -90 and 90'')
     else if out_of_range (- 180) 180 (parseFloat rt (str_value (get_prop l (lit ''longitude''))))
     then Inl (Error ''longitude must be a valid number between -180 and 180'')
     else Inr (JObj [(lit ''$type'', JStr (lit ''community.lexicon.location.geo'')),
                     (lit ''latitude'', get_prop l (lit ''latitude'')),
                     (lit ''longitude'', get_prop l (lit ''longitude''))]))"
  unfolding validateGeoLocation_def not_string_cond range_cond Let_def by (rule refl)

lemma rejection_validateGeoLocation:
  "rejection (validateGeoLocation rt l) = first_of (geo_violations rt l)"
  by (auto simp: validateGeoLocation_alt geo_violations_def dest: nonempty_string_is_string)

lemma address_field_alt:
  "address_field l f v =
    (if get_prop l (lit f) \<noteq> JUndefined \<and> \<not> is_string (get_prop l (lit f))
     then Inl (Error (f @ '' must be a string''))
     else if get_prop l (lit f) = JUndefined then Inr v
     else Inr (set_prop v (lit f) (get_prop l (lit f))))"
  by (simp add: address_field_def typeof_string_iff)

lemma rejection_address_fields:
  "rejection (address_fields l fs v) =
     first_of (concat (map (\<lambda>f. viol (get_prop l (lit f) \<noteq> JUndefined \<and> \<not> is_string (get_prop l (lit f)))
                          (Error (f @ '' must be a string''))) fs))"
  by (induction fs arbitrary: v) (simp_all add: address_field_alt)

lemma rejection_validateAddressLocation:
  "rejection (validateAddressLocation l) = first_of (address_violations l)"
  unfolding address_violations_def validateAddressLocation_def
  by (rule rejection_address_fields)

lemma rejection_validate_location:
  "rejection (validate_location rt l) = first_of (location_violations rt l)"
  by (simp add: location_violations_def validate_location_def
        rejection_validateAddressLocation rejection_validateGeoLocation)

lemma rejection_validate_locations_loop:
  "rejection (validate_locations_loop rt ls acc)
     = first_of (concat (map (location_violations rt) ls))"
proof (induction ls arbitrary: acc)
  case Nil
  show ?case by simp
next
  case (Cons l ls)
  show ?case
  proof (cases "validate_location rt l")
    case (Inl e)
    then have "first_of (location_violations rt l) = Some e"
      by (simp add: rejection_validate_location [symmetric])
    with Inl show ?thesis by simp
  next
    case (Inr v)
    then have "first_of (location_violations rt l) = None"
      by (simp add: rejection_validate_location [symmetric])
    with Inr Cons.IH [of "acc @ [v]"] show ?thesis by simp
  qed
qed

lemma rejection_validate_locations:
  "rejection (validate_locations rt r v)
     = first_of (viol (get_prop r (lit ''locations'') \<noteq> JUndefined
                        \<and> \<not> isArray (get_prop r (lit ''locations'')))
                   (Error ''locations must be an array'')
                 @ concat (map (location_violations rt) (elements (get_prop r (lit ''locations'')))))"
proof (cases "get_prop r (lit ''locations'')")
  case (JArr ls)
  show ?thesis
  proof (cases "validate_locations_loop rt ls []")
    case (Inl e)
    with rejection_validate_locations_loop [of rt ls "[]"]
    have "first_of (concat (map (location_violations rt) ls)) = Some e" by simp
    with Inl JArr show ?thesis by (simp add: validate_locations_def)
  next
    case (Inr vs)
    with rejection_validate_locations_loop [of rt ls "[]"]
    have "first_of (concat (map (location_violations rt) ls)) = None" by simp
    with Inr JArr show ?thesis by (simp add: validate_locations_def)
  qed
qed (simp_all add: validate_locations_def)

lemma category_field_alt:
  "category_field r f n shown v =
    (if get_prop r (lit f) = JUndefined then Inr v
     else if \<not> nonempty_string (get_prop r (lit f))
     then Inl (Error (f @ '' must be a non-empty string''))
     else if length (str_value (get_prop r (lit f))) > n
     then Inl (Error (f @ '' must be '' @ shown @ '' characters or less''))
     else Inr (set_prop v (lit f) (get_prop r (lit f))))"
  unfolding category_field_def not_category_cond by simp

lemma rejection_category_field:
  "rejection (category_field r f n shown v) = first_of (category_violations r f n shown)"
  by (cases "get_prop r (lit f)")
     (simp_all add: category_field_alt category_violations_def nonempty_string_def is_string_def)

lemma validateCheckinRecord_alt:
  "validateCheckinRecord rt record =
    (if \<not> structured_object record
     then Inl (Error ''Record must be an object'')
     else if \<not> nonempty_string (get_prop record (lit ''text''))
     then Inl (Error ''Record must have a text field'')
     else if length (str_value (get_prop record (lit ''text''))) > 300
     then Inl (Error ''text must be 300 characters or less'')
     else if \<not> nonempty_string (get_prop record (lit ''createdAt''))
     then Inl (Error ''Record must have a createdAt field'')
     else if Date_parse rt (str_value (get_prop record (lit ''createdAt''))) = NaN
     then Inl (Error ''createdAt must be a valid ISO timestamp'')
     else
       (case validate_locations rt record
              (JObj [(lit ''$type'', JStr (lit ''app.dropanchor.checkin'')),
                     (lit ''text'', get_prop record (lit ''text'')),
                     (lit ''createdAt'', get_prop record (lit ''createdAt''))]) of
          Inl e \<Rightarrow> Inl e
        | Inr v1 \<Rightarrow>
          (case category_field record ''category'' 50 ''50'' v1 of
             Inl e \<Rightarrow> Inl e
           | Inr v2 \<Rightarrow>
             (case category_field record ''categoryGroup'' 50 ''50'' v2 of
                Inl e \<Rightarrow> Inl e
              | Inr v3 \<Rightarrow> category_field record ''categoryIcon'' 10 ''10'' v3))))"
  unfolding validateCheckinRecord_def not_string_cond not_object_cond isNaN_def by (rule refl)

lemma rejection_validateCheckinRecord:
  "rejection (validateCheckinRecord rt r) = first_of (violations rt r)"
proof -
  define v0 where "v0 = JObj [(lit ''$type'', JStr (lit ''app.dropanchor.checkin'')),
                     (lit ''text'', get_prop r (lit ''text'')),
                     (lit ''createdAt'', get_prop r (lit ''createdAt''))]"
  define L where "L = viol (get_prop r (lit ''locations'') \<noteq> JUndefined
                        \<and> \<not> isArray (get_prop r (lit ''locations'')))
                   (Error ''locations must be an array'')
            @ concat (map (location_violations rt) (elements (get_prop r (lit ''locations''))))"
  define C where "C = category_violations r ''category'' 50 ''50''"
  define G where "G = category_violations r ''categoryGroup'' 50 ''50''"
  define I where "I = category_violations r ''categoryIcon'' 10 ''10''"
  define chain where "chain = (case validate_locations rt r v0 of
          Inl e \<Rightarrow> Inl e
        | Inr v1 \<Rightarrow>
          (case category_field r ''category'' 50 ''50'' v1 of
             Inl e \<Rightarrow> Inl e
           | Inr v2 \<Rightarrow>
             (case category_field r ''categoryGroup'' 50 ''50'' v2 of
                Inl e \<Rightarrow> Inl e
              | Inr v3 \<Rightarrow> category_field r ''categoryIcon'' 10 ''10'' v3)))"
  have rL: "rejection (validate_locations rt r v) = first_of L" for v
    unfolding L_def by (rule rejection_validate_locations)
  have rC: "rejection (category_field r ''category'' 50 ''50'' v) = first_of C" for v
    unfolding C_def by (rule rejection_category_field)
  have rG: "rejection (category_field r ''categoryGroup'' 50 ''50'' v) = first_of G" for v
    unfolding G_def by (rule rejection_category_field)
  have rI: "rejection (category_field r ''categoryIcon'' 10 ''10'' v) = first_of I" for v
    unfolding I_def by (rule rejection_category_field)
  have chain: "rejection chain = first_of (L @ C @ G @ I)"
  proof (cases "validate_locations rt r v0")
    case (Inl e)
    with rL [of v0] have "first_of L = Some e" by simp
    with Inl show ?thesis by (simp add: chain_def)
  next
    case (Inr v1)
    with rL [of v0] have L: "first_of L = None" by simp
    show ?thesis
    proof (cases "category_field r ''category'' 50 ''50'' v1")
      case (Inl e)
      with rC [of v1] have "first_of C = Some e" by simp
      with Inl Inr L show ?thesis by (simp add: chain_def)
    next
      case v2: (Inr v2)
      with rC [of v1] have C: "first_of C = None" by simp
      show ?thesis
      proof (cases "category_field r ''categoryGroup'' 50 ''50'' v2")
        case (Inl e)
        with rG [of v2] have "first_of G = Some e" by simp
        with Inl Inr v2 L C show ?thesis by (simp add: chain_def)
      next
        case v3: (Inr v3)
        with rG [of v2] have G: "first_of G = None" by simp
        from Inr v2 v3 L C G show ?thesis by (simp add: chain_def rI)
      qed
    qed
  qed
  have code: "validateCheckinRecord rt r =
    (if \<not> structured_object r
     then Inl (Error ''Record must be an object'')
     else if \<not> nonempty_string (get_prop r (lit ''text''))
     then Inl (Error ''Record must have a text field'')
     else if length (str_value (get_prop r (lit ''text''))) > 300
     then Inl (Error ''text must be 300 characters or less'')
     else if \<not> nonempty_string (get_prop r (lit ''createdAt''))
     then Inl (Error ''Record must have a createdAt field'')
     else if Date_parse rt (str_value (get_prop r (lit ''createdAt''))) = NaN
     then Inl (Error ''createdAt must be a valid ISO timestamp'')
     else chain)"
    unfolding chain_def v0_def by (rule validateCheckinRecord_alt)
  have spec: "violations rt r =
      viol (\<not> structured_object r) (Error ''Record must be an object'')
    @ viol (\<not> nonempty_string (get_prop r (lit ''text''))) (Error ''Record must have a text field'')
    @ viol (is_string (get_prop r (lit ''text''))
            \<and> length (str_value (get_prop r (lit ''text''))) > 300)
         (Error ''text must be 300 characters or less'')
    @ viol (\<not> nonempty_string (get_prop r (lit ''createdAt'')))
         (Error ''Record must have a createdAt field'')
    @ viol (is_string (get_prop r (lit ''createdAt''))
            \<and> Date_parse rt (str_value (get_prop r (lit ''createdAt''))) = NaN)
         (Error ''createdAt must be a valid ISO timestamp'')
    @ (L @ C @ G @ I)"
    unfolding L_def C_def G_def I_def violations_def by simp
  show ?thesis
    unfolding code spec
    by (auto simp: chain dest: nonempty_string_is_string)
qed

text \<open>
  Claim C2. When an input violates one rule or several, \<open>validateCheckinRecord\<close>
  rejects it with the first violation in the fixed order of \<open>violations\<close>: not an
  object, text missing, text too long, createdAt missing, timestamp unparseable,
  locations not an array, the errors of the location elements in sequence order, then
  category, categoryGroup, categoryIcon. The result carries that one error and no
  other. An input with no violation is accepted.
\<close>

theorem first_violation_wins:
  "(violations rt r \<noteq> [] \<longrightarrow> validateCheckinRecord rt r = Inl (hd (violations rt r)))
   \<and> (violations rt r = [] \<longrightarrow> (\<exists>v. validateCheckinRecord rt r = Inr v))"
  using rejection_validateCheckinRecord [of rt r]
  by (cases "violations rt r"; cases "validateCheckinRecord rt r") simp_all

lemma map_unat_lit [simp]: "map unat (lit s) = map of_char s"
  by (simp add: lit_def unat_lit_char comp_def)

lemmas parseFloat_decimal_eval =
  parseFloat_decimal_def unsigned_literal_def is_white_space_def is_digit_def
  digits_value_def exponent_part_def scale10_def negate_def

lemma example_violations:
  "violations example_runtime example_bad_record =
     [Error ''Record must have a text field'',
      Error ''createdAt must be a valid ISO timestamp'',
      Error ''latitude must be a valid number between -90 and 90'',
      Error ''longitude must be a valid number between -180 and 180'',
      UnsupportedLocationType (JStr (lit ''unknown.type'')),
      Error ''category must be a non-empty string'']"
  by (simp add: violations_def example_bad_record_def example_runtime_def viol_def
        structured_object_def nonempty_string_def is_string_def location_violations_def
        geo_violations_def category_violations_def out_of_range_def parseFloat_decimal_eval)

theorem first_violation_wins_witness:
  "violations example_runtime example_bad_record =
     [Error ''Record must have a text field'',
      Error ''createdAt must be a valid ISO timestamp'',
      Error ''latitude must be a valid number between -90 and 90'',
      Error ''longitude must be a valid number between -180 and 180'',
      UnsupportedLocationType (JStr (lit ''unknown.type'')),
      Error ''category must be a non-empty string'']
   \<and> validateCheckinRecord example_runtime example_bad_record
       = Inl (Error ''Record must have a text field'')"
  using first_violation_wins [of example_runtime example_bad_record]
  by (simp add: example_violations)

section \<open>Text and coordinates\<close>

lemma get_prop_JStr_structured: "get_prop r k = JStr s \<Longrightarrow> structured_object r"
  by (cases r) (simp_all add: structured_object_def)

lemma validate_Inr_no_violations:
  "validateCheckinRecord rt r = Inr v \<Longrightarrow> violations rt r = []"
  by (metis rejection_validateCheckinRecord first_of_None_iff rejection_simps(2))

lemma example_parseFloat:
  "parseFloat example_runtime (lit ''95.5'') = Fin (191 / 2)"
  "parseFloat example_runtime (lit ''10'') = Fin 10"
  "parseFloat example_runtime (lit ''45abc'') = Fin 45"
  "parseFloat example_runtime (lit ''40.7128'') = Fin (407128 / 10000)"
  "parseFloat example_runtime (lit ''-74.0060'') = Fin (- (740060 / 10000))"
  "parseFloat example_runtime (lit ''-200.5'') = Fin (- (401 / 2))"
  by (simp_all add: example_runtime_def parseFloat_decimal_eval)

lemma example_Date_parse:
  "Date_parse example_runtime (lit ''2025-06-15T13:00:00Z'') = Fin 1749992400000"
  by (simp add: example_runtime_def)

text \<open>
  Claim C10. A record whose text is the empty string is rejected with the message
  \<open>Record must have a text field\<close>, the same as a record with no text: the presence
  test \<open>!record.text\<close> takes the empty string for an absent value. There is no other
  error for a text that is too short, and an accepted record has a text of 1 to 300
  code units.
\<close>

theorem empty_text_is_missing_text:
  "(get_prop record (lit ''text'') = JStr [] \<longrightarrow>
      validateCheckinRecord rt record = Inl (Error ''Record must have a text field''))
   \<and> (\<forall>v. validateCheckinRecord rt record = Inr v \<longrightarrow>
        (\<exists>t. get_prop record (lit ''text'') = JStr t \<and> 1 \<le> length t \<and> length t \<le> 300))"
proof (intro conjI impI allI)
  assume empty: "get_prop record (lit ''text'') = JStr []"
  then have "structured_object record" by (rule get_prop_JStr_structured)
  with empty show "validateCheckinRecord rt record = Inl (Error ''Record must have a text field'')"
    by (simp add: validateCheckinRecord_alt nonempty_string_def)
next
  fix v assume "validateCheckinRecord rt record = Inr v"
  then have ok: "nonempty_string (get_prop record (lit ''text''))
                 \<and> \<not> length (str_value (get_prop record (lit ''text''))) > 300"
    by (simp add: validateCheckinRecord_alt split: if_splits)
  then show "\<exists>t. get_prop record (lit ''text'') = JStr t \<and> 1 \<le> length t \<and> length t \<le> 300"
    by (cases "get_prop record (lit ''text'')") (auto simp: nonempty_string_def Suc_le_eq)
qed

theorem empty_text_is_missing_text_witness:
  "get_prop example_empty_text_record (lit ''text'') = JStr []
   \<and> validateCheckinRecord example_runtime example_empty_text_record
       = Inl (Error ''Record must have a text field'')"
  using empty_text_is_missing_text [of example_empty_text_record example_runtime]
  by (simp add: example_empty_text_record_def)

text \<open>
  Claim C5. Take a geo location whose latitude and longitude are present as strings
  (non-empty, which is what the presence test asks) and whose parsed latitude is
  outside [-90, 90] or whose parsed longitude is outside [-180, 180]; a value that is
  not a number is outside as well. Then \<open>validateGeoLocation\<close> rejects it, naming the
  latitude when the latitude is out of range and the longitude otherwise; every record
  whose locations contain the element is rejected; and when nothing before the element
  fails, the record's error is that same error.
\<close>

theorem coordinates_out_of_range_rejected:
  assumes "get_prop l (lit ''$type'') = JStr (lit ''community.lexicon.location.geo'')"
    and "get_prop l (lit ''latitude'') = JStr lat" and "lat \<noteq> []"
    and "get_prop l (lit ''longitude'') = JStr lng" and "lng \<noteq> []"
    and "out_of_range (- 90) 90 (parseFloat rt lat) \<or> out_of_range (- 180) 180 (parseFloat rt lng)"
  shows "validateGeoLocation rt l =
           Inl (if out_of_range (- 90) 90 (parseFloat rt lat)
                then Error ''latitude must be a valid number between -90 and 90''
                else Error ''longitude must be a valid number between -180 and 180'')
         \<and> (\<forall>r ls. get_prop r (lit ''locations'') = JArr ls \<and> l \<in> set ls \<longrightarrow>
               (\<exists>e. validateCheckinRecord rt r = Inl e))
         \<and> (\<forall>r before after.
               structured_object r
               \<and> nonempty_string (get_prop r (lit ''text''))
               \<and> length (str_value (get_prop r (lit ''text''))) \<le> 300
               \<and> nonempty_string (get_prop r (lit ''createdAt''))
               \<and> Date_parse rt (str_value (get_prop r (lit ''createdAt''))) \<noteq> NaN
               \<and> get_prop r (lit ''locations'') = JArr (before @ l # after)
               \<and> concat (map (location_violations rt) before) = []
               \<longrightarrow> validateCheckinRecord rt r =
                     Inl (if out_of_range (- 90) 90 (parseFloat rt lat)
                          then Error ''latitude must be a valid number between -90 and 90''
                          else Error ''longitude must be a valid number between -180 and 180''))"
proof -
  let ?e = "if out_of_range (- 90) 90 (parseFloat rt lat)
            then Error ''latitude must be a valid number between -90 and 90''
            else Error ''longitude must be a valid number between -180 and 180''"
  have geo: "validateGeoLocation rt l = Inl ?e"
    using assms by (auto simp: validateGeoLocation_alt nonempty_string_def)
  have nonnull: "l \<noteq> JNull \<and> l \<noteq> JUndefined"
    using assms(2) by (cases l) simp_all
  have loc: "validate_location rt l = Inl ?e"
    using assms(1) nonnull geo by (simp add: validate_location_def)
  then have lv: "first_of (location_violations rt l) = Some ?e"
    by (simp only: rejection_validate_location [symmetric] rejection_simps)
  then have lv_ne: "location_violations rt l \<noteq> []"
    by (simp only: first_of_Some_hd) simp
  have rejected: "\<exists>e. validateCheckinRecord rt r = Inl e"
    if "get_prop r (lit ''locations'') = JArr ls \<and> l \<in> set ls" for r ls
  proof -
    from that lv_ne have "concat (map (location_violations rt) ls) \<noteq> []" by auto
    with that have "violations rt r \<noteq> []" by (simp add: violations_def)
    then have "first_of (violations rt r) \<noteq> None" by (simp add: first_of_None_iff)
    then show ?thesis
      by (simp add: rejection_validateCheckinRecord [symmetric] rejection_None_iff)
         (cases "validateCheckinRecord rt r", simp_all)
  qed
  have named: "validateCheckinRecord rt r = Inl ?e"
    if "structured_object r
               \<and> nonempty_string (get_prop r (lit ''text''))
               \<and> length (str_value (get_prop r (lit ''text''))) \<le> 300
               \<and> nonempty_string (get_prop r (lit ''createdAt''))
               \<and> Date_parse rt (str_value (get_prop r (lit ''createdAt''))) \<noteq> NaN
               \<and> get_prop r (lit ''locations'') = JArr (before @ l # after)
               \<and> concat (map (location_violations rt) before) = []" for r before after
  proof -
    from that have "violations rt r =
        location_violations rt l @ (concat (map (location_violations rt) after)
          @ category_violations r ''category'' 50 ''50''
          @ category_violations r ''categoryGroup'' 50 ''50''
          @ category_violations r ''categoryIcon'' 10 ''10'')"
      by (simp add: violations_def viol_def)
    then have "first_of (violations rt r) = Some ?e"
      using lv by (simp only: first_of_simps(4) option.case)
    then show ?thesis
      by (simp only: rejection_validateCheckinRecord [symmetric] rejection_Some_iff)
  qed
  from geo rejected named show ?thesis by blast
qed


theorem coordinates_out_of_range_rejected_witness:
  "parseFloat example_runtime (lit ''95.5'') = Fin (191 / 2)
   \<and> validateGeoLocation example_runtime (geo_location (lit ''95.5'') (lit ''10''))
       = Inl (Error ''latitude must be a valid number between -90 and 90'')
   \<and> validateCheckinRecord example_runtime
         (example_checkin [geo_location (lit ''40.7128'') (lit ''-74.0060''),
                           geo_location (lit ''95.5'') (lit ''10'')])
       = Inl (Error ''latitude must be a valid number between -90 and 90'')
   \<and> validateGeoLocation example_runtime (geo_location (lit ''45abc'') (lit ''-200.5''))
       = Inl (Error ''longitude must be a valid number between -180 and 180'')"
proof -
  let ?l = "geo_location (lit ''95.5'') (lit ''10'')"
  let ?ok = "geo_location (lit ''40.7128'') (lit ''-74.0060'')"
  let ?r = "example_checkin [?ok, ?l]"
  have h1: "get_prop ?l (lit ''$type'') = JStr (lit ''community.lexicon.location.geo'')"
    and h2: "get_prop ?l (lit ''latitude'') = JStr (lit ''95.5'')"
    and h3: "lit ''95.5'' \<noteq> []"
    and h4: "get_prop ?l (lit ''longitude'') = JStr (lit ''10'')"
    and h5: "lit ''10'' \<noteq> []"
    by (simp_all add: geo_location_def)
  have h6: "out_of_range (- 90) 90 (parseFloat example_runtime (lit ''95.5''))
            \<or> out_of_range (- 180) 180 (parseFloat example_runtime (lit ''10''))"
    by (simp add: example_parseFloat out_of_range_def)
  note main = coordinates_out_of_range_rejected [OF h1 h2 h3 h4 h5 h6]
  have lat: "out_of_range (- 90) 90 (parseFloat example_runtime (lit ''95.5''))"
    by (simp add: example_parseFloat out_of_range_def)
  have before: "concat (map (location_violations example_runtime) [?ok]) = []"
    by (simp add: location_violations_def geo_location_def geo_violations_def viol_def
          nonempty_string_def is_string_def example_parseFloat out_of_range_def)
  have base: "structured_object ?r
               \<and> nonempty_string (get_prop ?r (lit ''text''))
               \<and> length (str_value (get_prop ?r (lit ''text''))) \<le> 300
               \<and> nonempty_string (get_prop ?r (lit ''createdAt''))
               \<and> Date_parse example_runtime (str_value (get_prop ?r (lit ''createdAt''))) \<noteq> NaN
               \<and> get_prop ?r (lit ''locations'') = JArr ([?ok] @ ?l # [])"
    by (simp add: example_checkin_def structured_object_def nonempty_string_def
          example_Date_parse)
  from main lat have c2: "validateGeoLocation example_runtime ?l
       = Inl (Error ''latitude must be a valid number between -90 and 90'')"
    by simp
  note third = main [THEN conjunct2, THEN conjunct2, THEN spec, THEN spec, THEN spec,
                     of ?r "[?ok]" "[]"]
  from third base before lat have c3: "validateCheckinRecord example_runtime ?r
       = Inl (Error ''latitude must be a valid number between -90 and 90'')"
    by (simp only: simp_thms if_True)
  have c4: "validateGeoLocation example_runtime (geo_location (lit ''45abc'') (lit ''-200.5''))
       = Inl (Error ''longitude must be a valid number between -180 and 180'')"
    by (simp add: validateGeoLocation_alt geo_location_def nonempty_string_def
          example_parseFloat out_of_range_def)
  from c2 c3 c4 show ?thesis by (simp add: example_parseFloat)
qed

text \<open>
  Claim C9. The range test reads the coordinates through \<open>parseFloat\<close>, which stops at
  the first character that does not continue a number. So a string such as \<open>45abc\<close>
  passes when its numeric prefix is in range, and the validated location carries the
  original strings, unparsed and with whatever follows the number.
\<close>

theorem coordinate_strings_echoed_verbatim:
  assumes "get_prop l (lit ''latitude'') = JStr lat" and "lat \<noteq> []"
    and "get_prop l (lit ''longitude'') = JStr lng" and "lng \<noteq> []"
    and "\<not> out_of_range (- 90) 90 (parseFloat rt lat)"
    and "\<not> out_of_range (- 180) 180 (parseFloat rt lng)"
  shows "validateGeoLocation rt l =
           Inr (JObj [(lit ''$type'', JStr (lit ''community.lexicon.location.geo'')),
                      (lit ''latitude'', JStr lat),
                      (lit ''longitude'', JStr lng)])"
  using assms by (simp add: validateGeoLocation_alt nonempty_string_def)

theorem coordinate_strings_echoed_verbatim_witness:
  "parseFloat example_runtime (lit ''45abc'') = Fin 45
   \<and> validateGeoLocation example_runtime (geo_location (lit ''45abc'') (lit ''10''))
       = Inr (JObj [(lit ''$type'', JStr (lit ''community.lexicon.location.geo'')),
                    (lit ''latitude'', JStr (lit ''45abc'')),
                    (lit ''longitude'', JStr (lit ''10''))])
   \<and> validateCheckinRecord example_runtime
         (example_checkin [geo_location (lit ''45abc'') (lit ''10'')])
       = Inr (JObj [(lit ''$type'', JStr (lit ''app.dropanchor.checkin'')),
                    (lit ''text'', JStr (lit ''Coffee'')),
                    (lit ''createdAt'', JStr (lit ''2025-06-15T13:00:00Z'')),
                    (lit ''locations'',
                       JArr [JObj [(lit ''$type'', JStr (lit ''community.lexicon.location.geo'')),
                                   (lit ''latitude'', JStr (lit ''45abc'')),
                                   (lit ''longitude'', JStr (lit ''10''))]])])"
proof -
  let ?l = "geo_location (lit ''45abc'') (lit ''10'')"
  have geo: "validateGeoLocation example_runtime ?l
       = Inr (JObj [(lit ''$type'', JStr (lit ''community.lexicon.location.geo'')),
                    (lit ''latitude'', JStr (lit ''45abc'')),
                    (lit ''longitude'', JStr (lit ''10''))])"
    by (rule coordinate_strings_echoed_verbatim)
       (simp_all add: geo_location_def example_parseFloat out_of_range_def)
  have loc: "validate_location example_runtime ?l = validateGeoLocation example_runtime ?l"
    by (simp add: validate_location_def geo_location_def)
  have "validateCheckinRecord example_runtime (example_checkin [?l])
       = Inr (JObj [(lit ''$type'', JStr (lit ''app.dropanchor.checkin'')),
                    (lit ''text'', JStr (lit ''Coffee'')),
                    (lit ''createdAt'', JStr (lit ''2025-06-15T13:00:00Z'')),
                    (lit ''locations'',
                       JArr [JObj [(lit ''$type'', JStr (lit ''community.lexicon.location.geo'')),
                                   (lit ''latitude'', JStr (lit ''45abc'')),
                                   (lit ''longitude'', JStr (lit ''10''))]])])"
    by (simp add: validateCheckinRecord_alt example_checkin_def structured_object_def
          nonempty_string_def example_Date_parse validate_locations_def loc geo
          category_field_alt)
  with geo show ?thesis by (simp add: example_parseFloat)
qed

section \<open>The record store\<close>

lemma length_sql_limit:
  "length (sql_limit n xs) = (if n < 0 then length xs else min (nat n) (length xs))"
  by (auto simp: sql_limit_def)

lemma length_getGlobalFeed:
  "length (getGlobalFeed rt limit cursor table) =
    (if min (limit_or_default limit) 100 < 0
     then length (filter (\<lambda>r. if cursor_given cursor then col_createdAt r < the cursor else True) table)
     else min (nat (min (limit_or_default limit) 100))
            (length (filter (\<lambda>r. if cursor_given cursor then col_createdAt r < the cursor else True) table)))"
  by (simp only: getGlobalFeed_def Let_def length_map length_sql_limit
        order_by_createdAt_desc_def length_rev length_sort)

lemma getGlobalFeed_cap_nonnegative:
  "0 \<le> limit_or_default limit \<Longrightarrow> length (getGlobalFeed rt limit cursor table) \<le> 100"
  by (auto simp: length_getGlobalFeed)

lemma getGlobalFeed_150: "length (getGlobalFeed rt (Some 150) cursor table) \<le> 100"
  by (rule getGlobalFeed_cap_nonnegative) (simp add: limit_or_default_def)

lemma distinct_example_ids: "distinct (map col_id (example_table n))"
proof -
  have "inj_on (\<lambda>i. col_id (example_row i)) (set [0..<n])"
  proof (rule inj_onI)
    fix i j assume "col_id (example_row i) = col_id (example_row j)"
    then have "length (replicate i (120::16 word)) = length (replicate j (120::16 word))"
      by (simp add: example_row_def)
    then show "i = j" by simp
  qed
  then show ?thesis by (simp add: example_table_def distinct_map comp_def)
qed

text \<open>
  Claim C1. The limit sent to the database is \<open>min limit 100\<close>, and for a limit of 0
  or more the feed has at most 100 rows (\<open>getGlobalFeed_cap_nonnegative\<close>, and
  \<open>getGlobalFeed_150\<close> for a request of 150). A negative limit passes \<open>Math.min\<close>
  unchanged, and SQLite reads a negative \<open>LIMIT\<close> as no limit: with 101 rows stored,
  \<open>getGlobalFeed(-1)\<close> returns all 101.
\<close>

theorem getGlobalFeed_negative_limit_unbounded:
  "length (example_table 101) = 101
   \<and> distinct (map col_id (example_table 101))
   \<and> length (getGlobalFeed example_runtime (Some (- 1)) None (example_table 101)) = 101"
proof (intro conjI)
  show rows: "length (example_table 101) = 101"
    by (simp add: example_table_def)
  show "distinct (map col_id (example_table 101))"
    by (rule distinct_example_ids)
  show "length (getGlobalFeed example_runtime (Some (- 1)) None (example_table 101)) = 101"
    by (simp add: length_getGlobalFeed limit_or_default_def cursor_given_def rows)
qed

lemma insort_key_map:
  "insort_key k (g x) (map g xs) = map g (insort_key (\<lambda>y. k (g y)) x xs)"
  by (induction xs) simp_all

lemma sort_key_map: "sort_key k (map g xs) = map g (sort_key (\<lambda>y. k (g y)) xs)"
  by (induction xs) (simp_all add: insort_key_map)

lemma sql_limit_map: "sql_limit n (map g xs) = map g (sql_limit n xs)"
  by (simp add: sql_limit_def take_map)

lemma null_malformed_cols [simp]:
  "col_id (null_malformed_locations rt r) = col_id r"
  "col_authorDid (null_malformed_locations rt r) = col_authorDid r"
  "col_text (null_malformed_locations rt r) = col_text r"
  "col_createdAt (null_malformed_locations rt r) = col_createdAt r"
  "col_category (null_malformed_locations rt r) = col_category r"
  "col_categoryGroup (null_malformed_locations rt r) = col_categoryGroup r"
  "col_categoryIcon (null_malformed_locations rt r) = col_categoryIcon r"
  "col_uri (null_malformed_locations rt r) = col_uri r"
  "col_cid (null_malformed_locations rt r) = col_cid r"
  by (simp_all add: null_malformed_locations_def)

lemma row_to_checkin_malformed:
  "malformed_locations rt r \<Longrightarrow>
   row_to_checkin rt r =
     \<lparr> sc_type = lit ''app.dropanchor.checkin'',
       sc_id = col_id r,
       sc_authorDid = col_authorDid r,
       sc_text = col_text r,
       sc_createdAt = col_createdAt r,
       sc_locations = None,
       sc_category = string_or_undefined (col_category r),
       sc_categoryGroup = string_or_undefined (col_categoryGroup r),
       sc_categoryIcon = string_or_undefined (col_categoryIcon r),
       sc_uri = col_uri r,
       sc_cid = string_or_undefined (col_cid r) \<rparr>"
  by (auto simp: malformed_locations_def row_to_checkin_def string_or_undefined_def Let_def
        split: option.splits)

lemma row_to_checkin_null_malformed:
  "row_to_checkin rt (null_malformed_locations rt r) = row_to_checkin rt r"
proof (cases "malformed_locations rt r")
  case True
  then show ?thesis
    by (simp add: row_to_checkin_malformed)
       (simp add: null_malformed_locations_def row_to_checkin_def string_or_undefined_def)
next
  case False
  then show ?thesis by (simp add: null_malformed_locations_def)
qed

lemma order_by_map_null_malformed:
  "order_by_createdAt_desc (map (null_malformed_locations rt) rows)
     = map (null_malformed_locations rt) (order_by_createdAt_desc rows)"
  by (simp add: order_by_createdAt_desc_def sort_key_map rev_map)

lemma filter_map_null_malformed:
  "(\<And>r. P (null_malformed_locations rt r) = P r) \<Longrightarrow>
   filter P (map (null_malformed_locations rt) rows)
     = map (null_malformed_locations rt) (filter P rows)"
  by (simp add: filter_map comp_def)

lemma getGlobalFeed_null_malformed:
  "getGlobalFeed rt limit cursor (map (null_malformed_locations rt) table)
     = getGlobalFeed rt limit cursor table"
  by (simp add: getGlobalFeed_def Let_def filter_map_null_malformed order_by_map_null_malformed
        sql_limit_map row_to_checkin_null_malformed comp_def)

lemma getCheckinsByAuthor_null_malformed:
  "getCheckinsByAuthor rt authorDid limit cursor (map (null_malformed_locations rt) table)
     = getCheckinsByAuthor rt authorDid limit cursor table"
  by (simp add: getCheckinsByAuthor_def filter_map_null_malformed order_by_map_null_malformed
        sql_limit_map row_to_checkin_null_malformed comp_def)

lemma getCheckinByUri_null_malformed:
  "getCheckinByUri rt uri (map (null_malformed_locations rt) table)
     = getCheckinByUri rt uri table"
  by (simp add: getCheckinByUri_def filter_map_null_malformed row_to_checkin_null_malformed
        split: list.splits)


lemma set_order_by_createdAt_desc [simp]: "set (order_by_createdAt_desc rows) = set rows"
  by (simp add: order_by_createdAt_desc_def)

lemma sql_limit_all: "n < 0 \<or> length xs \<le> nat n \<Longrightarrow> sql_limit n xs = xs"
  by (auto simp: sql_limit_def)

lemma length_getCheckinsByAuthor:
  "length (getCheckinsByAuthor rt authorDid limit cursor table) =
    (if limit_or_default limit < 0
     then length (filter (\<lambda>x. col_authorDid x = authorDid
                    \<and> (if cursor_given cursor then col_createdAt x < the cursor else True)) table)
     else min (nat (limit_or_default limit))
            (length (filter (\<lambda>x. col_authorDid x = authorDid
                    \<and> (if cursor_given cursor then col_createdAt x < the cursor else True)) table)))"
  by (simp only: getCheckinsByAuthor_def length_map length_sql_limit
        order_by_createdAt_desc_def length_rev length_sort)

lemma getCheckinByUri_find:
  "getCheckinByUri rt uri table
     = map_option (row_to_checkin rt) (List.find (\<lambda>x. col_uri x = uri) table)"
  by (induction table) (simp_all add: getCheckinByUri_def)

lemma getCheckinsByAuthor_member:
  assumes "r \<in> set table" and "col_authorDid r = authorDid"
    and "if cursor_given cursor then col_createdAt r < the cursor else True"
    and "limit_or_default limit < 0
         \<or> length (filter (\<lambda>x. col_authorDid x = authorDid
                    \<and> (if cursor_given cursor then col_createdAt x < the cursor else True)) table)
             \<le> nat (limit_or_default limit)"
  shows "row_to_checkin rt r \<in> set (getCheckinsByAuthor rt authorDid limit cursor table)"
proof -
  let ?rows = "order_by_createdAt_desc (filter (\<lambda>x. col_authorDid x = authorDid
                    \<and> (if cursor_given cursor then col_createdAt x < the cursor else True)) table)"
  from assms(4) have "sql_limit (limit_or_default limit) ?rows = ?rows"
    by (intro sql_limit_all) (simp add: order_by_createdAt_desc_def)
  then have "getCheckinsByAuthor rt authorDid limit cursor table = map (row_to_checkin rt) ?rows"
    by (simp only: getCheckinsByAuthor_def)
  moreover from assms(1-3) have "r \<in> set ?rows" by simp
  ultimately show ?thesis by simp
qed

lemma getGlobalFeed_member:
  assumes "r \<in> set table"
    and "if cursor_given cursor then col_createdAt r < the cursor else True"
    and "min (limit_or_default limit) 100 < 0
         \<or> length (filter (\<lambda>x. if cursor_given cursor then col_createdAt x < the cursor else True)
                     table)
             \<le> nat (min (limit_or_default limit) 100)"
  shows "row_to_checkin rt r \<in> set (getGlobalFeed rt limit cursor table)"
proof -
  let ?rows = "order_by_createdAt_desc
                 (filter (\<lambda>x. if cursor_given cursor then col_createdAt x < the cursor else True)
                    table)"
  from assms(3) have "sql_limit (min (limit_or_default limit) 100) ?rows = ?rows"
    by (intro sql_limit_all) (simp add: order_by_createdAt_desc_def)
  then have "getGlobalFeed rt limit cursor table = map (row_to_checkin rt) ?rows"
    by (simp only: getGlobalFeed_def Let_def)
  moreover from assms(1,2) have "r \<in> set ?rows" by simp
  ultimately show ?thesis by simp
qed

text \<open>
  Claim C6. A row whose locations column holds a string that is not valid JSON is
  converted all the same: \<open>JSON.parse\<close> throws, the exception is caught, and the record
  comes out with \<open>locations\<close> absent and every other field as the row has it.
  The reads return it like any other row: \<open>getCheckinByUri\<close> returns the record of the
  first row with the URI, wherever it stands in the table; \<open>getCheckinsByAuthor\<close> and
  \<open>getGlobalFeed\<close> return the record of every row that passes their filter when the
  limit does not cut the page, and as many records as the limit and the filter give,
  whatever the rows' locations hold. And each of the three returns on a table exactly
  what it returns on the table with \<open>NULL\<close> in place of the malformed strings: the
  same records in the same order.
\<close>

theorem malformed_locations_read_as_absent:
  "(malformed_locations rt r \<longrightarrow>
      row_to_checkin rt r =
        \<lparr> sc_type = lit ''app.dropanchor.checkin'',
          sc_id = col_id r,
          sc_authorDid = col_authorDid r,
          sc_text = col_text r,
          sc_createdAt = col_createdAt r,
          sc_locations = None,
          sc_category = string_or_undefined (col_category r),
          sc_categoryGroup = string_or_undefined (col_categoryGroup r),
          sc_categoryIcon = string_or_undefined (col_categoryIcon r),
          sc_uri = col_uri r,
          sc_cid = string_or_undefined (col_cid r) \<rparr>)
   \<and> (List.find (\<lambda>x. col_uri x = uri) table = Some r \<longrightarrow>
        getCheckinByUri rt uri table = Some (row_to_checkin rt r))
   \<and> (r \<in> set table \<and> col_authorDid r = authorDid
        \<and> (if cursor_given cursor then col_createdAt r < the cursor else True)
        \<and> (limit_or_default limit < 0
            \<or> length (filter (\<lambda>x. col_authorDid x = authorDid
                   \<and> (if cursor_given cursor then col_createdAt x < the cursor else True)) table)
                \<le> nat (limit_or_default limit))
        \<longrightarrow> row_to_checkin rt r \<in> set (getCheckinsByAuthor rt authorDid limit cursor table))
   \<and> (r \<in> set table
        \<and> (if cursor_given cursor then col_createdAt r < the cursor else True)
        \<and> (min (limit_or_default limit) 100 < 0
            \<or> length (filter (\<lambda>x. if cursor_given cursor then col_createdAt x < the cursor
                                    else True) table)
                \<le> nat (min (limit_or_default limit) 100))
        \<longrightarrow> row_to_checkin rt r \<in> set (getGlobalFeed rt limit cursor table))
   \<and> length (getCheckinsByAuthor rt authorDid limit cursor table) =
        (if limit_or_default limit < 0
         then length (filter (\<lambda>x. col_authorDid x = authorDid
                   \<and> (if cursor_given cursor then col_createdAt x < the cursor else True)) table)
         else min (nat (limit_or_default limit))
                (length (filter (\<lambda>x. col_authorDid x = authorDid
                   \<and> (if cursor_given cursor then col_createdAt x < the cursor else True)) table)))
   \<and> length (getGlobalFeed rt limit cursor table) =
        (if min (limit_or_default limit) 100 < 0
         then length (filter (\<lambda>x. if cursor_given cursor then col_createdAt x < the cursor
                                   else True) table)
         else min (nat (min (limit_or_default limit) 100))
                (length (filter (\<lambda>x. if cursor_given cursor then col_createdAt x < the cursor
                                      else True) table)))
   \<and> getCheckinByUri rt (col_uri r) (r # table) = Some (row_to_checkin rt r)
   \<and> getCheckinByUri rt uri (map (null_malformed_locations rt) table)
       = getCheckinByUri rt uri table
   \<and> getCheckinsByAuthor rt authorDid limit cursor (map (null_malformed_locations rt) table)
       = getCheckinsByAuthor rt authorDid limit cursor table
   \<and> getGlobalFeed rt limit cursor (map (null_malformed_locations rt) table)
       = getGlobalFeed rt limit cursor table"
proof (intro conjI impI)
  assume "malformed_locations rt r"
  then show "row_to_checkin rt r =
        \<lparr> sc_type = lit ''app.dropanchor.checkin'',
          sc_id = col_id r,
          sc_authorDid = col_authorDid r,
          sc_text = col_text r,
          sc_createdAt = col_createdAt r,
          sc_locations = None,
          sc_category = string_or_undefined (col_category r),
          sc_categoryGroup = string_or_undefined (col_categoryGroup r),
          sc_categoryIcon = string_or_undefined (col_categoryIcon r),
          sc_uri = col_uri r,
          sc_cid = string_or_undefined (col_cid r) \<rparr>"
    by (rule row_to_checkin_malformed)
next
  assume "List.find (\<lambda>x. col_uri x = uri) table = Some r"
  then show "getCheckinByUri rt uri table = Some (row_to_checkin rt r)"
    by (simp add: getCheckinByUri_find)
next
  assume "r \<in> set table \<and> col_authorDid r = authorDid
        \<and> (if cursor_given cursor then col_createdAt r < the cursor else True)
        \<and> (limit_or_default limit < 0
            \<or> length (filter (\<lambda>x. col_authorDid x = authorDid
                   \<and> (if cursor_given cursor then col_createdAt x < the cursor else True)) table)
                \<le> nat (limit_or_default limit))"
  then show "row_to_checkin rt r \<in> set (getCheckinsByAuthor rt authorDid limit cursor table)"
    by (intro getCheckinsByAuthor_member) (elim conjE, assumption)+
next
  assume "r \<in> set table
        \<and> (if cursor_given cursor then col_createdAt r < the cursor else True)
        \<and> (min (limit_or_default limit) 100 < 0
            \<or> length (filter (\<lambda>x. if cursor_given cursor then col_createdAt x < the cursor
                                    else True) table)
                \<le> nat (min (limit_or_default limit) 100))"
  then show "row_to_checkin rt r \<in> set (getGlobalFeed rt limit cursor table)"
    by (intro getGlobalFeed_member) (elim conjE, assumption)+
next
  show "length (getCheckinsByAuthor rt authorDid limit cursor table) =
        (if limit_or_default limit < 0
         then length (filter (\<lambda>x. col_authorDid x = authorDid
                   \<and> (if cursor_given cursor then col_createdAt x < the cursor else True)) table)
         else min (nat (limit_or_default limit))
                (length (filter (\<lambda>x. col_authorDid x = authorDid
                   \<and> (if cursor_given cursor then col_createdAt x < the cursor else True)) table)))"
    by (rule length_getCheckinsByAuthor)
next
  show "length (getGlobalFeed rt limit cursor table) =
        (if min (limit_or_default limit) 100 < 0
         then length (filter (\<lambda>x. if cursor_given cursor then col_createdAt x < the cursor
                                   else True) table)
         else min (nat (min (limit_or_default limit) 100))
                (length (filter (\<lambda>x. if cursor_given cursor then col_createdAt x < the cursor
                                      else True) table)))"
    by (rule length_getGlobalFeed)
next
  show "getCheckinByUri rt (col_uri r) (r # table) = Some (row_to_checkin rt r)"
    by (simp add: getCheckinByUri_def)
next
  show "getCheckinByUri rt uri (map (null_malformed_locations rt) table)
       = getCheckinByUri rt uri table"
    by (rule getCheckinByUri_null_malformed)
next
  show "getCheckinsByAuthor rt authorDid limit cursor (map (null_malformed_locations rt) table)
       = getCheckinsByAuthor rt authorDid limit cursor table"
    by (rule getCheckinsByAuthor_null_malformed)
next
  show "getGlobalFeed rt limit cursor (map (null_malformed_locations rt) table)
       = getGlobalFeed rt limit cursor table"
    by (rule getGlobalFeed_null_malformed)
qed

lemma example_corrupt_malformed:
  "malformed_locations example_runtime (example_corrupt_row\<lparr> col_createdAt := c \<rparr>)"
  by (simp add: malformed_locations_def example_corrupt_row_def example_runtime_def)

lemma example_timestamps_order:
  "lit ''2025-06-15T13:00:00Z'' \<le> lit ''2025-06-16T09:30:00Z''"
  by (simp add: lit_def)

lemma example_corrupt_find:
  "List.find (\<lambda>x. col_uri x = lit ''at://did:plc:example123/app.dropanchor.checkin/rkey-corrupt'')
     example_corrupt_table
   = Some (example_corrupt_row\<lparr> col_createdAt := lit ''2025-06-16T09:30:00Z'' \<rparr>)"
  by (simp add: example_corrupt_table_def example_row_def example_corrupt_row_def)

theorem malformed_locations_read_as_absent_witness:
  "malformed_locations example_runtime
     (example_corrupt_row\<lparr> col_createdAt := lit ''2025-06-16T09:30:00Z'' \<rparr>)
   \<and> example_corrupt_table ! 1
       = example_corrupt_row\<lparr> col_createdAt := lit ''2025-06-16T09:30:00Z'' \<rparr>
   \<and> getCheckinByUri example_runtime
         (lit ''at://did:plc:example123/app.dropanchor.checkin/rkey-corrupt'') example_corrupt_table
       = Some \<lparr> sc_type = lit ''app.dropanchor.checkin'',
            sc_id = lit ''rkey-corrupt'',
            sc_authorDid = lit ''did:plc:example123'',
            sc_text = lit ''Coffee'',
            sc_createdAt = lit ''2025-06-16T09:30:00Z'',
            sc_locations = None,
            sc_category = Some (lit ''cafe''),
            sc_categoryGroup = None,
            sc_categoryIcon = None,
            sc_uri = lit ''at://did:plc:example123/app.dropanchor.checkin/rkey-corrupt'',
            sc_cid = Some (lit ''baf123abc456'') \<rparr>
   \<and> \<lparr> sc_type = lit ''app.dropanchor.checkin'',
        sc_id = lit ''rkey-corrupt'',
        sc_authorDid = lit ''did:plc:example123'',
        sc_text = lit ''Coffee'',
        sc_createdAt = lit ''2025-06-16T09:30:00Z'',
        sc_locations = None,
        sc_category = Some (lit ''cafe''),
        sc_categoryGroup = None,
        sc_categoryIcon = None,
        sc_uri = lit ''at://did:plc:example123/app.dropanchor.checkin/rkey-corrupt'',
        sc_cid = Some (lit ''baf123abc456'') \<rparr>
       \<in> set (getCheckinsByAuthor example_runtime (lit ''did:plc:example123'') None None
                 example_corrupt_table)
   \<and> length (getCheckinsByAuthor example_runtime (lit ''did:plc:example123'') None None
                 example_corrupt_table) = 2
   \<and> getGlobalFeed example_runtime None None example_corrupt_table
       = [\<lparr> sc_type = lit ''app.dropanchor.checkin'',
            sc_id = lit ''rkey-corrupt'',
            sc_authorDid = lit ''did:plc:example123'',
            sc_text = lit ''Coffee'',
            sc_createdAt = lit ''2025-06-16T09:30:00Z'',
            sc_locations = None,
            sc_category = Some (lit ''cafe''),
            sc_categoryGroup = None,
            sc_categoryIcon = None,
            sc_uri = lit ''at://did:plc:example123/app.dropanchor.checkin/rkey-corrupt'',
            sc_cid = Some (lit ''baf123abc456'') \<rparr>,
          row_to_checkin example_runtime (example_row 0)]"
proof -
  let ?r = "example_corrupt_row\<lparr> col_createdAt := lit ''2025-06-16T09:30:00Z'' \<rparr>"
  let ?uri = "lit ''at://did:plc:example123/app.dropanchor.checkin/rkey-corrupt''"
  let ?did = "lit ''did:plc:example123''"
  note main = malformed_locations_read_as_absent
                [where rt = example_runtime and r = ?r and uri = ?uri
                   and table = example_corrupt_table and authorDid = ?did
                   and limit = None and cursor = None]
  note c1 = main [THEN conjunct1]
  note c2 = main [THEN conjunct2, THEN conjunct1]
  note c3 = main [THEN conjunct2, THEN conjunct2, THEN conjunct1]
  note c5 = main [THEN conjunct2, THEN conjunct2, THEN conjunct2, THEN conjunct2, THEN conjunct1]
  have bad: "malformed_locations example_runtime ?r"
    by (rule example_corrupt_malformed)
  have second: "example_corrupt_table ! 1 = ?r"
    by (simp add: example_corrupt_table_def)
  have conv: "row_to_checkin example_runtime ?r =
        \<lparr> sc_type = lit ''app.dropanchor.checkin'',
          sc_id = col_id ?r,
          sc_authorDid = col_authorDid ?r,
          sc_text = col_text ?r,
          sc_createdAt = col_createdAt ?r,
          sc_locations = None,
          sc_category = string_or_undefined (col_category ?r),
          sc_categoryGroup = string_or_undefined (col_categoryGroup ?r),
          sc_categoryIcon = string_or_undefined (col_categoryIcon ?r),
          sc_uri = col_uri ?r,
          sc_cid = string_or_undefined (col_cid ?r) \<rparr>"
    by (rule c1 [THEN mp, OF bad])
  have conv': "row_to_checkin example_runtime ?r =
        \<lparr> sc_type = lit ''app.dropanchor.checkin'',
            sc_id = lit ''rkey-corrupt'',
            sc_authorDid = lit ''did:plc:example123'',
            sc_text = lit ''Coffee'',
            sc_createdAt = lit ''2025-06-16T09:30:00Z'',
            sc_locations = None,
            sc_category = Some (lit ''cafe''),
            sc_categoryGroup = None,
            sc_categoryIcon = None,
            sc_uri = lit ''at://did:plc:example123/app.dropanchor.checkin/rkey-corrupt'',
            sc_cid = Some (lit ''baf123abc456'') \<rparr>"
    unfolding conv by (simp add: example_corrupt_row_def string_or_undefined_def)
  have by_uri: "getCheckinByUri example_runtime ?uri example_corrupt_table
                  = Some (row_to_checkin example_runtime ?r)"
    by (rule c2 [THEN mp, OF example_corrupt_find])
  have cond: "?r \<in> set example_corrupt_table \<and> col_authorDid ?r = ?did
        \<and> (if cursor_given None then col_createdAt ?r < the None else True)
        \<and> (limit_or_default None < 0
            \<or> length (filter (\<lambda>x. col_authorDid x = ?did
                   \<and> (if cursor_given None then col_createdAt x < the None else True))
                     example_corrupt_table)
                \<le> nat (limit_or_default None))"
    by (simp add: example_corrupt_table_def example_corrupt_row_def example_row_def
          cursor_given_def limit_or_default_def)
  have by_author: "row_to_checkin example_runtime ?r
       \<in> set (getCheckinsByAuthor example_runtime ?did None None example_corrupt_table)"
    by (rule c3 [THEN mp, OF cond])
  from c5
  have count: "length (getCheckinsByAuthor example_runtime ?did None None example_corrupt_table) = 2"
    by (simp add: example_corrupt_table_def example_corrupt_row_def example_row_def
          cursor_given_def limit_or_default_def)
  have order: "order_by_createdAt_desc example_corrupt_table = [?r, example_row 0]"
    using example_timestamps_order
    by (simp add: order_by_createdAt_desc_def example_corrupt_table_def example_row_def)
  have feed: "getGlobalFeed example_runtime None None example_corrupt_table
          = [row_to_checkin example_runtime ?r, row_to_checkin example_runtime (example_row 0)]"
    by (simp add: getGlobalFeed_def cursor_given_def limit_or_default_def sql_limit_def order)
  from bad second by_uri by_author count feed show ?thesis
    unfolding conv' by (intro conjI)
qed

section \<open>What the validator returns\<close>

lemma update_new_key:
  "k \<notin> fst ` set kvs \<Longrightarrow> AList.update k v kvs = kvs @ [(k, v)]"
  by (induction kvs) auto

lemma set_prop_new_key:
  "k \<notin> fst ` set kvs \<Longrightarrow> set_prop (JObj kvs) k v = JObj (kvs @ [(k, v)])"
  by (simp add: update_new_key)

lemma category_field_success:
  assumes "category_violations r f n shown = []" and "lit f \<notin> fst ` set kvs"
  shows "category_field r f n shown (JObj kvs) = Inr (JObj (kvs @ opt_prop r f))"
proof (cases "get_prop r (lit f) = JUndefined")
  case True
  then show ?thesis by (simp add: category_field_alt opt_prop_def)
next
  case False
  with assms(1) have "nonempty_string (get_prop r (lit f))"
    and "\<not> length (str_value (get_prop r (lit f))) > n"
    by (auto simp: category_violations_def viol_def dest: nonempty_string_is_string
          split: if_splits)
  with False assms(2) show ?thesis
    by (simp add: category_field_alt opt_prop_def set_prop_new_key del: set_prop.simps)
qed

lemma validate_locations_loop_acc:
  "validate_locations_loop rt ls acc =
     (case validate_locations_loop rt ls [] of Inl e \<Rightarrow> Inl e | Inr ws \<Rightarrow> Inr (acc @ ws))"
proof (induction ls arbitrary: acc)
  case Nil
  show ?case by simp
next
  case (Cons l ls)
  show ?case
  proof (cases "validate_location rt l")
    case (Inl e)
    then show ?thesis by simp
  next
    case (Inr v)
    then show ?thesis
      using Cons.IH [of "acc @ [v]"] Cons.IH [of "[v]"]
      by (simp split: sum.splits)
  qed
qed

lemma validate_locations_loop_Cons:
  "validate_locations_loop rt (l # ls) [] =
    (case validate_location rt l of
       Inl e \<Rightarrow> Inl e
     | Inr v \<Rightarrow> (case validate_locations_loop rt ls [] of
                   Inl e \<Rightarrow> Inl e
                 | Inr ws \<Rightarrow> Inr (v # ws)))"
proof (cases "validate_location rt l")
  case (Inl e)
  then show ?thesis by simp
next
  case (Inr v)
  then show ?thesis
    using validate_locations_loop_acc [of rt ls "[v]"] by (simp split: sum.splits)
qed

lemma validate_locations_loop_Inr:
  "validate_locations_loop rt ls [] = Inr ws \<Longrightarrow>
   list_all2 (\<lambda>l w. validate_location rt l = Inr w) ls ws"
proof (induction ls arbitrary: ws)
  case Nil
  then show ?case by simp
next
  case (Cons l ls)
  then show ?case
    by (auto simp: validate_locations_loop_Cons simp del: validate_locations_loop.simps
          split: sum.splits)
qed

lemma validate_locations_loop_fixed:
  "(\<And>w. w \<in> set ws \<Longrightarrow> validate_location rt w = Inr w) \<Longrightarrow>
   validate_locations_loop rt ws [] = Inr ws"
proof (induction ws)
  case Nil
  show ?case by simp
next
  case (Cons w ws)
  then show ?case
    by (simp add: validate_locations_loop_Cons del: validate_locations_loop.simps)
qed

lemma validate_locations_success:
  assumes "first_of (viol (get_prop r (lit ''locations'') \<noteq> JUndefined
                        \<and> \<not> isArray (get_prop r (lit ''locations'')))
                   (Error ''locations must be an array'')
                 @ concat (map (location_violations rt) (elements (get_prop r (lit ''locations''))))) = None"
    and "lit ''locations'' \<notin> fst ` set kvs"
  shows "validate_locations rt r (JObj kvs) =
    Inr (JObj (kvs @ (if validated_locations rt (elements (get_prop r (lit ''locations''))) = [] then []
             else [(lit ''locations'',
                    JArr (validated_locations rt (elements (get_prop r (lit ''locations'')))))])))"
proof -
  from assms(1) rejection_validate_locations [of rt r "JObj kvs"]
  have "rejection (validate_locations rt r (JObj kvs)) = None" by simp
  then obtain v where v: "validate_locations rt r (JObj kvs) = Inr v"
    by (auto simp: rejection_None_iff)
  show ?thesis
  proof (cases "get_prop r (lit ''locations'')")
    case (JArr ls)
    with v obtain vs where vs: "validate_locations_loop rt ls [] = Inr vs"
      by (cases "validate_locations_loop rt ls []") (simp_all add: validate_locations_def)
    with JArr assms(2) show ?thesis
      by (simp add: validate_locations_def validated_locations_def set_prop_new_key
            del: set_prop.simps)
  qed (use v in \<open>simp_all add: validate_locations_def validated_locations_def\<close>)
qed


lemma violations_Nil_parts:
  assumes "violations rt r = []"
  shows "structured_object r"
    and "nonempty_string (get_prop r (lit ''text''))"
    and "\<not> length (str_value (get_prop r (lit ''text''))) > 300"
    and "nonempty_string (get_prop r (lit ''createdAt''))"
    and "Date_parse rt (str_value (get_prop r (lit ''createdAt''))) \<noteq> NaN"
    and "first_of (viol (get_prop r (lit ''locations'') \<noteq> JUndefined
                        \<and> \<not> isArray (get_prop r (lit ''locations'')))
                   (Error ''locations must be an array'')
                 @ concat (map (location_violations rt) (elements (get_prop r (lit ''locations''))))) = None"
    and "category_violations r ''category'' 50 ''50'' = []"
    and "category_violations r ''categoryGroup'' 50 ''50'' = []"
    and "category_violations r ''categoryIcon'' 10 ''10'' = []"
proof -
  from assms have parts:
    "viol (\<not> structured_object r) (Error ''Record must be an object'') = []"
    "viol (\<not> nonempty_string (get_prop r (lit ''text''))) (Error ''Record must have a text field'') = []"
    "viol (is_string (get_prop r (lit ''text''))
            \<and> length (str_value (get_prop r (lit ''text''))) > 300)
         (Error ''text must be 300 characters or less'') = []"
    "viol (\<not> nonempty_string (get_prop r (lit ''createdAt'')))
         (Error ''Record must have a createdAt field'') = []"
    "viol (is_string (get_prop r (lit ''createdAt''))
            \<and> Date_parse rt (str_value (get_prop r (lit ''createdAt''))) = NaN)
         (Error ''createdAt must be a valid ISO timestamp'') = []"
    "viol (get_prop r (lit ''locations'') \<noteq> JUndefined \<and> \<not> isArray (get_prop r (lit ''locations'')))
         (Error ''locations must be an array'') = []"
    "concat (map (location_violations rt) (elements (get_prop r (lit ''locations'')))) = []"
    "category_violations r ''category'' 50 ''50'' = []"
    "category_violations r ''categoryGroup'' 50 ''50'' = []"
    "category_violations r ''categoryIcon'' 10 ''10'' = []"
    unfolding violations_def by simp_all
  from parts(1) show "structured_object r" by (simp add: viol_def split: if_splits)
  from parts(2) show t: "nonempty_string (get_prop r (lit ''text''))"
    by (simp add: viol_def split: if_splits)
  from parts(3) nonempty_string_is_string [OF t]
  show "\<not> length (str_value (get_prop r (lit ''text''))) > 300"
    by (simp add: viol_def split: if_splits)
  from parts(4) show c: "nonempty_string (get_prop r (lit ''createdAt''))"
    by (simp add: viol_def split: if_splits)
  from parts(5) nonempty_string_is_string [OF c]
  show "Date_parse rt (str_value (get_prop r (lit ''createdAt''))) \<noteq> NaN"
    by (simp add: viol_def split: if_splits)
  from parts(6,7) show "first_of (viol (get_prop r (lit ''locations'') \<noteq> JUndefined
                        \<and> \<not> isArray (get_prop r (lit ''locations'')))
                   (Error ''locations must be an array'')
                 @ concat (map (location_violations rt) (elements (get_prop r (lit ''locations''))))) = None"
    by (simp only: append_Nil first_of_simps)
  from parts(8) show "category_violations r ''category'' 50 ''50'' = []" .
  from parts(9) show "category_violations r ''categoryGroup'' 50 ''50'' = []" .
  from parts(10) show "category_violations r ''categoryIcon'' 10 ''10'' = []" .
qed

lemma fst_set_opt_prop: "fst ` set (opt_prop r f) \<subseteq> {lit f}"
  by (simp add: opt_prop_def)

lemma validate_success:
  assumes "violations rt r = []"
  shows "validateCheckinRecord rt r = Inr (validated_record rt r)"
proof -
  note ok = violations_Nil_parts [OF assms]
  define base where "base = [(lit ''$type'', JStr (lit ''app.dropanchor.checkin'')),
           (lit ''text'', get_prop r (lit ''text'')),
           (lit ''createdAt'', get_prop r (lit ''createdAt''))]"
  define locs where "locs = (if validated_locations rt (elements (get_prop r (lit ''locations''))) = [] then []
             else [(lit ''locations'',
                    JArr (validated_locations rt (elements (get_prop r (lit ''locations'')))))])"
  have keys_base: "fst ` set base = {lit ''$type'', lit ''text'', lit ''createdAt''}"
    by (auto simp: base_def)
  have keys_locs: "fst ` set locs \<subseteq> {lit ''locations''}"
    by (simp add: locs_def)
  have s1: "validate_locations rt r (JObj base) = Inr (JObj (base @ locs))"
    unfolding locs_def
    by (rule validate_locations_success [OF ok(6)]) (simp add: keys_base)
  have k1: "fst ` set (base @ locs)
              \<subseteq> {lit ''$type'', lit ''text'', lit ''createdAt'', lit ''locations''}"
  proof -
    have "fst ` set (base @ locs) = fst ` set base \<union> fst ` set locs"
      by (simp add: image_Un)
    also have "\<dots> \<subseteq> {lit ''$type'', lit ''text'', lit ''createdAt''} \<union> {lit ''locations''}"
      unfolding keys_base using keys_locs by (rule Un_mono [OF subset_refl])
    finally show ?thesis by (simp only: Un_insert_left Un_insert_right Un_empty_left Un_empty_right insert_commute)
  qed
  have k2: "fst ` set ((base @ locs) @ opt_prop r ''category'')
              \<subseteq> {lit ''$type'', lit ''text'', lit ''createdAt'', lit ''locations'',
                  lit ''category''}"
  proof -
    have "fst ` set ((base @ locs) @ opt_prop r ''category'')
            = fst ` set (base @ locs) \<union> fst ` set (opt_prop r ''category'')"
      by (simp only: set_append image_Un)
    also have "\<dots> \<subseteq> {lit ''$type'', lit ''text'', lit ''createdAt'', lit ''locations''}
                      \<union> {lit ''category''}"
      by (rule Un_mono [OF k1 fst_set_opt_prop])
    finally show ?thesis by (simp only: Un_insert_right Un_empty_right insert_commute)
  qed
  have k3: "fst ` set (((base @ locs) @ opt_prop r ''category'') @ opt_prop r ''categoryGroup'')
              \<subseteq> {lit ''$type'', lit ''text'', lit ''createdAt'', lit ''locations'',
                  lit ''category'', lit ''categoryGroup''}"
  proof -
    have "fst ` set (((base @ locs) @ opt_prop r ''category'') @ opt_prop r ''categoryGroup'')
            = fst ` set ((base @ locs) @ opt_prop r ''category'')
              \<union> fst ` set (opt_prop r ''categoryGroup'')"
      by (simp only: set_append image_Un)
    also have "\<dots> \<subseteq> {lit ''$type'', lit ''text'', lit ''createdAt'', lit ''locations'',
                  lit ''category''} \<union> {lit ''categoryGroup''}"
      by (rule Un_mono [OF k2 fst_set_opt_prop])
    finally show ?thesis by (simp only: Un_insert_right Un_empty_right insert_commute)
  qed
  have s2: "category_field r ''category'' 50 ''50'' (JObj (base @ locs))
              = Inr (JObj ((base @ locs) @ opt_prop r ''category''))"
    by (rule category_field_success [OF ok(7)], rule contra_subsetD [OF k1]) simp
  have s3: "category_field r ''categoryGroup'' 50 ''50'' (JObj ((base @ locs) @ opt_prop r ''category''))
              = Inr (JObj (((base @ locs) @ opt_prop r ''category'') @ opt_prop r ''categoryGroup''))"
    by (rule category_field_success [OF ok(8)], rule contra_subsetD [OF k2]) simp
  have s4: "category_field r ''categoryIcon'' 10 ''10''
              (JObj (((base @ locs) @ opt_prop r ''category'') @ opt_prop r ''categoryGroup''))
              = Inr (JObj ((((base @ locs) @ opt_prop r ''category'') @ opt_prop r ''categoryGroup'')
                       @ opt_prop r ''categoryIcon''))"
    by (rule category_field_success [OF ok(9)], rule contra_subsetD [OF k3]) simp
  have "validateCheckinRecord rt r =
      Inr (JObj ((((base @ locs) @ opt_prop r ''category'') @ opt_prop r ''categoryGroup'')
                       @ opt_prop r ''categoryIcon''))"
    using ok(1-5) s1 s2 s3 s4
    by (simp add: validateCheckinRecord_alt base_def [symmetric])
  then show ?thesis
    by (simp add: validated_record_def base_def locs_def)
qed

lemma validate_Inr_validated_record:
  "validateCheckinRecord rt r = Inr v \<Longrightarrow> v = validated_record rt r"
  using validate_success [OF validate_Inr_no_violations] by fastforce


lemma get_prop_validated_record:
  "get_prop (validated_record rt r) (lit ''$type'') = JStr (lit ''app.dropanchor.checkin'')"
  "get_prop (validated_record rt r) (lit ''text'') = get_prop r (lit ''text'')"
  "get_prop (validated_record rt r) (lit ''createdAt'') = get_prop r (lit ''createdAt'')"
  "get_prop (validated_record rt r) (lit ''locations'') =
     (if validated_locations rt (elements (get_prop r (lit ''locations''))) = [] then JUndefined
      else JArr (validated_locations rt (elements (get_prop r (lit ''locations'')))))"
  "get_prop (validated_record rt r) (lit ''category'') = get_prop r (lit ''category'')"
  "get_prop (validated_record rt r) (lit ''categoryGroup'') = get_prop r (lit ''categoryGroup'')"
  "get_prop (validated_record rt r) (lit ''categoryIcon'') = get_prop r (lit ''categoryIcon'')"
  by (simp_all add: validated_record_def opt_prop_def)

lemma map_of_opt_props:
  "map_of (concat (map (opt_prop l) fs)) (lit f) =
     (if f \<in> set fs \<and> get_prop l (lit f) \<noteq> JUndefined then Some (get_prop l (lit f)) else None)"
  by (induction fs) (auto simp: opt_prop_def)

lemma get_prop_opt_props:
  "f \<in> set fs \<Longrightarrow> lit f \<notin> fst ` set kvs \<Longrightarrow>
   get_prop (JObj (kvs @ concat (map (opt_prop l) fs))) (lit f) = get_prop l (lit f)"
proof -
  assume f: "f \<in> set fs" and fresh: "lit f \<notin> fst ` set kvs"
  from fresh have none: "map_of kvs (lit f) = None"
    by (simp add: map_of_eq_None_iff)
  show ?thesis
    using f none by (simp add: map_of_opt_props map_add_def)
qed

lemma opt_prop_absent: "get_prop l (lit f) = JUndefined \<Longrightarrow> opt_prop l f = []"
  by (simp add: opt_prop_def)

lemma opt_prop_present:
  "get_prop l (lit f) \<noteq> JUndefined \<Longrightarrow> opt_prop l f = [(lit f, get_prop l (lit f))]"
  by (simp add: opt_prop_def)

lemma address_fields_success:
  assumes "distinct fs"
    and "\<forall>f \<in> set fs. lit f \<notin> fst ` set kvs"
    and "\<forall>f \<in> set fs. get_prop l (lit f) = JUndefined \<or> is_string (get_prop l (lit f))"
  shows "address_fields l fs (JObj kvs) = Inr (JObj (kvs @ concat (map (opt_prop l) fs)))"
  using assms
proof (induction fs arbitrary: kvs)
  case Nil
  show ?case by simp
next
  case (Cons f fs)
  show ?case
  proof (cases "get_prop l (lit f) = JUndefined")
    case True
    then have step: "address_field l f (JObj kvs) = Inr (JObj kvs)"
      by (simp add: address_field_alt)
    have "address_fields l fs (JObj kvs) = Inr (JObj (kvs @ concat (map (opt_prop l) fs)))"
      using Cons.prems by (intro Cons.IH) simp_all
    with step show ?thesis by (simp add: opt_prop_absent [OF True])
  next
    case False
    with Cons.prems have str: "is_string (get_prop l (lit f))" by simp
    from Cons.prems have fresh: "lit f \<notin> fst ` set kvs" by simp
    from False str fresh
    have step: "address_field l f (JObj kvs) = Inr (JObj (kvs @ [(lit f, get_prop l (lit f))]))"
      by (simp add: address_field_alt set_prop_new_key del: set_prop.simps)
    have "address_fields l fs (JObj (kvs @ [(lit f, get_prop l (lit f))]))
            = Inr (JObj ((kvs @ [(lit f, get_prop l (lit f))]) @ concat (map (opt_prop l) fs)))"
      using Cons.prems by (intro Cons.IH) auto
    with step show ?thesis by (simp add: opt_prop_present [OF False])
  qed
qed

lemma address_fields_Inr_strings:
  "address_fields l fs v = Inr w \<Longrightarrow> f \<in> set fs \<Longrightarrow>
   get_prop l (lit f) = JUndefined \<or> is_string (get_prop l (lit f))"
proof (induction fs arbitrary: v)
  case Nil
  then show ?case by simp
next
  case (Cons g fs)
  then show ?case
    by (auto simp: address_field_alt split: if_splits sum.splits)
qed


lemma validateAddressLocation_Inr:
  assumes "validateAddressLocation l = Inr w"
  shows "w = JObj ([(lit ''$type'', JStr (lit ''community.lexicon.location.address''))]
                   @ concat (map (opt_prop l)
                       [''street'', ''locality'', ''region'', ''country'', ''postalCode'', ''name'']))"
proof -
  let ?fs = "[''street'', ''locality'', ''region'', ''country'', ''postalCode'', ''name'']"
  let ?kvs = "[(lit ''$type'', JStr (lit ''community.lexicon.location.address''))]"
  from assms have run: "address_fields l ?fs (JObj ?kvs) = Inr w"
    by (simp only: validateAddressLocation_def)
  have strings: "\<forall>f \<in> set ?fs. get_prop l (lit f) = JUndefined \<or> is_string (get_prop l (lit f))"
    using address_fields_Inr_strings [OF run] by blast
  have "address_fields l ?fs (JObj ?kvs) = Inr (JObj (?kvs @ concat (map (opt_prop l) ?fs)))"
    by (rule address_fields_success [OF _ _ strings]) simp_all
  with run show ?thesis by simp
qed

lemma validateAddressLocation_idem:
  assumes "validateAddressLocation l = Inr w"
  shows "validateAddressLocation w = Inr w"
proof -
  let ?fs = "[''street'', ''locality'', ''region'', ''country'', ''postalCode'', ''name'']"
  let ?kvs = "[(lit ''$type'', JStr (lit ''community.lexicon.location.address''))]"
  from assms have run: "address_fields l ?fs (JObj ?kvs) = Inr w"
    by (simp only: validateAddressLocation_def)
  have w: "w = JObj (?kvs @ concat (map (opt_prop l) ?fs))"
    by (rule validateAddressLocation_Inr [OF assms])
  have same: "get_prop w (lit f) = get_prop l (lit f)" if "f \<in> set ?fs" for f
    unfolding w using that by (intro get_prop_opt_props) auto
  have strings: "\<forall>f \<in> set ?fs. get_prop w (lit f) = JUndefined \<or> is_string (get_prop w (lit f))"
    using address_fields_Inr_strings [OF run] same by metis
  have "address_fields w ?fs (JObj ?kvs) = Inr (JObj (?kvs @ concat (map (opt_prop w) ?fs)))"
    by (rule address_fields_success [OF _ _ strings]) simp_all
  moreover have "map (opt_prop w) ?fs = map (opt_prop l) ?fs"
    by (rule map_cong [OF refl]) (simp only: opt_prop_def same)
  ultimately show ?thesis
    by (simp only: validateAddressLocation_def w [symmetric])
qed

lemma validateGeoLocation_idem:
  assumes "validateGeoLocation rt l = Inr w"
  shows "validateGeoLocation rt w = Inr w"
    and "w = JObj [(lit ''$type'', JStr (lit ''community.lexicon.location.geo'')),
                   (lit ''latitude'', get_prop l (lit ''latitude'')),
                   (lit ''longitude'', get_prop l (lit ''longitude''))]"
proof -
  from assms show w: "w = JObj [(lit ''$type'', JStr (lit ''community.lexicon.location.geo'')),
                   (lit ''latitude'', get_prop l (lit ''latitude'')),
                   (lit ''longitude'', get_prop l (lit ''longitude''))]"
    by (simp add: validateGeoLocation_alt split: if_splits)
  have lat: "get_prop w (lit ''latitude'') = get_prop l (lit ''latitude'')"
    and lng: "get_prop w (lit ''longitude'') = get_prop l (lit ''longitude'')"
    by (simp_all add: w)
  from assms show "validateGeoLocation rt w = Inr w"
    unfolding validateGeoLocation_alt lat lng by (simp add: w split: if_splits)
qed

lemma validate_location_idem:
  assumes "validate_location rt l = Inr w"
  shows "validate_location rt w = Inr w"
proof (cases "get_prop l (lit ''$type'') = JStr (lit ''community.lexicon.location.geo'')")
  case True
  with assms have geo: "validateGeoLocation rt l = Inr w"
    by (simp add: validate_location_def split: if_splits)
  note w = validateGeoLocation_idem(2) [OF geo]
  have "get_prop w (lit ''$type'') = JStr (lit ''community.lexicon.location.geo'')"
    by (simp add: w)
  moreover have "w \<noteq> JNull \<and> w \<noteq> JUndefined" by (simp add: w)
  ultimately show ?thesis
    using validateGeoLocation_idem(1) [OF geo] by (simp add: validate_location_def)
next
  case False
  with assms have addr: "validateAddressLocation l = Inr w"
    by (simp add: validate_location_def split: if_splits)
  note w = validateAddressLocation_Inr [OF addr]
  have "get_prop w (lit ''$type'') = JStr (lit ''community.lexicon.location.address'')"
    by (simp add: w)
  moreover have "w \<noteq> JNull \<and> w \<noteq> JUndefined" by (simp add: w)
  ultimately show ?thesis
    using validateAddressLocation_idem [OF addr] by (simp add: validate_location_def)
qed

lemma validate_locations_loop_idem:
  assumes "validate_locations_loop rt ls [] = Inr ws"
  shows "validate_locations_loop rt ws [] = Inr ws"
proof (rule validate_locations_loop_fixed)
  fix w assume "w \<in> set ws"
  with validate_locations_loop_Inr [OF assms]
  obtain l where "validate_location rt l = Inr w"
    by (auto simp: list_all2_conv_all_nth in_set_conv_nth)
  then show "validate_location rt w = Inr w" by (rule validate_location_idem)
qed

section \<open>Re-validation and the locations field\<close>

lemma validated_locations_run:
  assumes "violations rt r = []"
  shows "validate_locations_loop rt (elements (get_prop r (lit ''locations''))) []
           = Inr (validated_locations rt (elements (get_prop r (lit ''locations''))))"
proof -
  from violations_Nil_parts(6) [OF assms]
  have "first_of (concat (map (location_violations rt)
                    (elements (get_prop r (lit ''locations''))))) = None"
    by (simp split: if_splits option.splits)
  then have "rejection (validate_locations_loop rt
                (elements (get_prop r (lit ''locations''))) []) = None"
    by (simp only: rejection_validate_locations_loop)
  then obtain ws where "validate_locations_loop rt
                (elements (get_prop r (lit ''locations''))) [] = Inr ws"
    by (auto simp: rejection_None_iff)
  then show ?thesis by (simp add: validated_locations_def)
qed

lemma validated_locations_length:
  assumes "violations rt r = []"
  shows "length (validated_locations rt (elements (get_prop r (lit ''locations''))))
           = length (elements (get_prop r (lit ''locations'')))"
  using validate_locations_loop_Inr [OF validated_locations_run [OF assms]]
  by (simp add: list_all2_lengthD)

lemma prop_names_validated_record:
  "set (prop_names (validated_record rt r))
     \<subseteq> {lit ''$type'', lit ''text'', lit ''createdAt'', lit ''locations'',
         lit ''category'', lit ''categoryGroup'', lit ''categoryIcon''}"
  by (auto simp: prop_names_def validated_record_def opt_prop_def split: if_splits)

lemma locations_in_prop_names:
  "lit ''locations'' \<in> set (prop_names (validated_record rt r))
     \<longleftrightarrow> validated_locations rt (elements (get_prop r (lit ''locations''))) \<noteq> []"
  by (auto simp: prop_names_def validated_record_def opt_prop_def split: if_splits)

lemma elements_locations_validated_record:
  "elements (get_prop (validated_record rt r) (lit ''locations''))
     = validated_locations rt (elements (get_prop r (lit ''locations'')))"
  by (simp add: get_prop_validated_record)

lemma violations_validated_record:
  assumes "violations rt r = []"
  shows "violations rt (validated_record rt r) = []"
proof -
  note ok = violations_Nil_parts [OF assms]
  let ?v = "validated_record rt r"
  let ?ws = "validated_locations rt (elements (get_prop r (lit ''locations'')))"
  have again: "validate_locations_loop rt ?ws [] = Inr ?ws"
    by (rule validate_locations_loop_idem [OF validated_locations_run [OF assms]])
  have "rejection (validate_locations_loop rt ?ws []) = None"
    by (simp only: again rejection_simps)
  then have locs: "concat (map (location_violations rt) ?ws) = []"
    by (simp only: rejection_validate_locations_loop first_of_None_iff)
  have obj: "structured_object ?v"
    by (simp add: validated_record_def structured_object_def)
  have arr: "\<not> (get_prop ?v (lit ''locations'') \<noteq> JUndefined
               \<and> \<not> isArray (get_prop ?v (lit ''locations'')))"
    by (simp add: get_prop_validated_record)
  have cats: "category_violations ?v ''category'' 50 ''50'' = []"
    "category_violations ?v ''categoryGroup'' 50 ''50'' = []"
    "category_violations ?v ''categoryIcon'' 10 ''10'' = []"
    using ok(7-9) by (simp_all only: category_violations_def get_prop_validated_record)
  show ?thesis
    unfolding violations_def elements_locations_validated_record
    using obj ok(2-5) arr locs cats nonempty_string_is_string
    by (simp add: viol_def get_prop_validated_record)
qed

lemma validated_record_idem:
  assumes "violations rt r = []"
  shows "validated_record rt (validated_record rt r) = validated_record rt r"
proof -
  let ?ws = "validated_locations rt (elements (get_prop r (lit ''locations'')))"
  have again: "validate_locations_loop rt ?ws [] = Inr ?ws"
    by (rule validate_locations_loop_idem [OF validated_locations_run [OF assms]])
  then have ws: "validated_locations rt ?ws = ?ws"
    by (simp add: validated_locations_def)
  have opts: "opt_prop (validated_record rt r) ''category'' = opt_prop r ''category''"
    "opt_prop (validated_record rt r) ''categoryGroup'' = opt_prop r ''categoryGroup''"
    "opt_prop (validated_record rt r) ''categoryIcon'' = opt_prop r ''categoryIcon''"
    by (simp_all only: opt_prop_def get_prop_validated_record)
  have "validated_record rt (validated_record rt r) =
    JObj ([(lit ''$type'', JStr (lit ''app.dropanchor.checkin'')),
           (lit ''text'', get_prop r (lit ''text'')),
           (lit ''createdAt'', get_prop r (lit ''createdAt''))]
          @ (if ?ws = [] then [] else [(lit ''locations'', JArr ?ws)])
          @ opt_prop r ''category''
          @ opt_prop r ''categoryGroup''
          @ opt_prop r ''categoryIcon'')"
    by (simp only: validated_record_def [of rt "validated_record rt r"]
          elements_locations_validated_record ws opts get_prop_validated_record(2,3))
  then show ?thesis by (simp only: validated_record_def)
qed

text \<open>
  Claim C8. The record returned for an accepted input is accepted again and comes back
  unchanged. Its properties are among \<open>$type\<close>, \<open>text\<close>, \<open>createdAt\<close>,
  \<open>locations\<close>, \<open>category\<close>, \<open>categoryGroup\<close> and \<open>categoryIcon\<close>, so no
  other property of the input is copied; \<open>$type\<close> is \<open>app.dropanchor.checkin\<close>
  whatever the input had; the text, the timestamp and the category fields are the
  input's.
\<close>

theorem revalidation_is_identity:
  assumes "validateCheckinRecord rt x = Inr v"
  shows "validateCheckinRecord rt v = Inr v
         \<and> set (prop_names v)
             \<subseteq> {lit ''$type'', lit ''text'', lit ''createdAt'', lit ''locations'',
                 lit ''category'', lit ''categoryGroup'', lit ''categoryIcon''}
         \<and> get_prop v (lit ''$type'') = JStr (lit ''app.dropanchor.checkin'')
         \<and> get_prop v (lit ''text'') = get_prop x (lit ''text'')
         \<and> get_prop v (lit ''createdAt'') = get_prop x (lit ''createdAt'')
         \<and> get_prop v (lit ''category'') = get_prop x (lit ''category'')
         \<and> get_prop v (lit ''categoryGroup'') = get_prop x (lit ''categoryGroup'')
         \<and> get_prop v (lit ''categoryIcon'') = get_prop x (lit ''categoryIcon'')"
proof -
  from assms have valid: "violations rt x = []" by (rule validate_Inr_no_violations)
  from assms have v: "v = validated_record rt x" by (rule validate_Inr_validated_record)
  have "validateCheckinRecord rt v = Inr (validated_record rt v)"
    unfolding v by (rule validate_success [OF violations_validated_record [OF valid]])
  then have "validateCheckinRecord rt v = Inr v"
    unfolding v by (simp only: validated_record_idem [OF valid])
  then show ?thesis
    using prop_names_validated_record [of rt x]
    by (simp add: v get_prop_validated_record)
qed


lemma example_full_geo:
  "validate_location example_runtime
     (JObj [(lit ''$type'', JStr (lit ''community.lexicon.location.geo'')),
            (lit ''latitude'', JStr (lit ''40.7128'')),
            (lit ''longitude'', JStr (lit ''-74.0060'')),
            (lit ''altitude'', JNum (Fin 12))])
   = Inr (JObj [(lit ''$type'', JStr (lit ''community.lexicon.location.geo'')),
                (lit ''latitude'', JStr (lit ''40.7128'')),
                (lit ''longitude'', JStr (lit ''-74.0060''))])"
  by (simp add: validate_location_def validateGeoLocation_alt nonempty_string_def
        example_parseFloat out_of_range_def)

lemma example_full_address:
  "validate_location example_runtime
     (JObj [(lit ''name'', JStr (lit ''Central Perk'')),
            (lit ''$type'', JStr (lit ''community.lexicon.location.address'')),
            (lit ''floor'', JNum (Fin 2)),
            (lit ''locality'', JStr (lit ''New York''))])
   = Inr (JObj [(lit ''$type'', JStr (lit ''community.lexicon.location.address'')),
                (lit ''locality'', JStr (lit ''New York'')),
                (lit ''name'', JStr (lit ''Central Perk''))])"
  by (simp add: validate_location_def validateAddressLocation_def address_field_alt
        is_string_def)

lemma example_full_run:
  "validateCheckinRecord example_runtime example_full_checkin = Inr example_full_validated"
  by (simp add: validateCheckinRecord_alt example_full_checkin_def example_full_validated_def
        structured_object_def nonempty_string_def example_Date_parse validate_locations_def
        example_full_geo example_full_address category_field_alt)

theorem revalidation_is_identity_witness:
  "validateCheckinRecord example_runtime example_full_checkin = Inr example_full_validated
   \<and> validateCheckinRecord example_runtime example_full_validated = Inr example_full_validated
   \<and> get_prop example_full_checkin (lit ''$type'') = JStr (lit ''something.else'')
   \<and> get_prop example_full_validated (lit ''$type'') = JStr (lit ''app.dropanchor.checkin'')
   \<and> get_prop example_full_checkin (lit ''rating'') = JNum (Fin 5)
   \<and> get_prop example_full_validated (lit ''rating'') = JUndefined"
  using revalidation_is_identity [OF example_full_run] example_full_run
  by (simp add: example_full_checkin_def)
     (simp add: example_full_validated_def)

text \<open>
  Claim C3, as amended. An input with no violation whose \<open>locations\<close> is the empty
  array is accepted, and the returned record has no \<open>locations\<close> property: the
  assignment is guarded by \<open>validatedLocations.length > 0\<close>. For every accepted input,
  the returned record has the property exactly when the input's array has an element,
  it then holds one validated element per input element, and it is never the empty
  array.
\<close>

theorem empty_locations_array_omitted:
  "(violations rt r = [] \<and> get_prop r (lit ''locations'') = JArr [] \<longrightarrow>
      (\<exists>v. validateCheckinRecord rt r = Inr v
           \<and> lit ''locations'' \<notin> set (prop_names v)
           \<and> get_prop v (lit ''locations'') = JUndefined))
   \<and> (\<forall>v. validateCheckinRecord rt r = Inr v \<longrightarrow>
         (lit ''locations'' \<in> set (prop_names v))
           = (elements (get_prop r (lit ''locations'')) \<noteq> [])
         \<and> get_prop v (lit ''locations'') \<noteq> JArr []
         \<and> length (elements (get_prop v (lit ''locations'')))
             = length (elements (get_prop r (lit ''locations''))))"
proof (intro conjI impI allI)
  assume a: "violations rt r = [] \<and> get_prop r (lit ''locations'') = JArr []"
  then have valid: "violations rt r = []" and empty: "get_prop r (lit ''locations'') = JArr []"
    by simp_all
  have none: "validated_locations rt (elements (get_prop r (lit ''locations''))) = []"
    using validated_locations_length [OF valid] by (simp add: empty)
  have "validateCheckinRecord rt r = Inr (validated_record rt r)"
    by (rule validate_success [OF valid])
  moreover have "lit ''locations'' \<notin> set (prop_names (validated_record rt r))"
    by (simp only: locations_in_prop_names none) simp
  moreover have "get_prop (validated_record rt r) (lit ''locations'') = JUndefined"
    by (simp add: get_prop_validated_record none)
  ultimately show "\<exists>v. validateCheckinRecord rt r = Inr v
           \<and> lit ''locations'' \<notin> set (prop_names v)
           \<and> get_prop v (lit ''locations'') = JUndefined"
    by blast
next
  fix v assume run: "validateCheckinRecord rt r = Inr v"
  then have valid: "violations rt r = []" by (rule validate_Inr_no_violations)
  from run have v: "v = validated_record rt r" by (rule validate_Inr_validated_record)
  note len = validated_locations_length [OF valid]
  show "(lit ''locations'' \<in> set (prop_names v))
           = (elements (get_prop r (lit ''locations'')) \<noteq> [])"
    unfolding v locations_in_prop_names using len by (metis length_0_conv)
  show "get_prop v (lit ''locations'') \<noteq> JArr []"
    unfolding v by (simp add: get_prop_validated_record)
  show "length (elements (get_prop v (lit ''locations'')))
             = length (elements (get_prop r (lit ''locations'')))"
    unfolding v elements_locations_validated_record by (rule len)
qed

text \<open>
  The claim as first stated fails on the check-in with \<open>locations: []\<close>: the record
  returned has three properties, and \<open>locations\<close> is not one of them.
\<close>

theorem empty_locations_array_counterexample:
  "validateCheckinRecord example_runtime (example_checkin [])
     = Inr (JObj [(lit ''$type'', JStr (lit ''app.dropanchor.checkin'')),
                  (lit ''text'', JStr (lit ''Coffee'')),
                  (lit ''createdAt'', JStr (lit ''2025-06-15T13:00:00Z''))])
   \<and> get_prop (example_checkin []) (lit ''locations'') = JArr []
   \<and> get_prop (JObj [(lit ''$type'', JStr (lit ''app.dropanchor.checkin'')),
                     (lit ''text'', JStr (lit ''Coffee'')),
                     (lit ''createdAt'', JStr (lit ''2025-06-15T13:00:00Z''))])
         (lit ''locations'') \<noteq> JArr []"
  by (simp add: validateCheckinRecord_alt example_checkin_def structured_object_def
        nonempty_string_def example_Date_parse validate_locations_def category_field_alt)

lemma example_checkin_empty_valid: "violations example_runtime (example_checkin []) = []"
  by (simp add: violations_def example_checkin_def viol_def structured_object_def
        nonempty_string_def is_string_def example_Date_parse category_violations_def)

theorem empty_locations_array_omitted_witness:
  "violations example_runtime (example_checkin []) = []
   \<and> get_prop (example_checkin []) (lit ''locations'') = JArr []
   \<and> (\<exists>v. validateCheckinRecord example_runtime (example_checkin []) = Inr v
           \<and> lit ''locations'' \<notin> set (prop_names v)
           \<and> get_prop v (lit ''locations'') = JUndefined)"
  using empty_locations_array_omitted [of example_runtime "example_checkin []"]
    example_checkin_empty_valid
  by (simp add: example_checkin_def)

end
